theory Spec2Isabelle
  imports Main "HOL-Library.Word"
begin

unbundle bit_operations_syntax

section \<open>A two-pass assembler for a 14-bit machine: embedding of the C sources\<close>

text \<open>
  The development follows the C sources file by file: \<^verbatim>\<open>general.c\<close> (tokenizer, hash
  tables), \<^verbatim>\<open>front_end.c\<close> (line parser), \<^verbatim>\<open>pre_assembler.c\<close> (macro expansion),
  \<^verbatim>\<open>first_pass.c\<close>, \<^verbatim>\<open>second_pass.c\<close> and \<^verbatim>\<open>back_end.c\<close>.

  Conventions of the embedding.
  \<^item> A C string is a \<open>string\<close> (the bytes before the terminating NUL); text files are
    strings without NUL bytes.
  \<^item> A C \<open>int\<close> is an \<open>int\<close>: the counters and addresses of the program stay far
    from the 32-bit limits. A \<open>short\<close> memory cell is a \<open>16 word\<close>; \<open>unsigned int\<close>
    in the hash function is a \<open>32 word\<close>.
  \<^item> \<open>malloc\<close>, \<open>realloc\<close> and \<open>fopen\<close> are taken to succeed; the branches that test
    for the parser's detail \<open>memory allocation failed\<close> are kept where the callers have them.
  \<^item> Nodes allocated with \<open>malloc\<close> live in an append-only store (a list); a pointer to
    a node is its index in the store, and a hash-table chain is the list of the
    pointers it links, head first.
  \<^item> The images \<open>instruction_array\<close> and \<open>data_array\<close> are functions from the index to
    the cell. The C arrays have \<open>MAX_PROGRAM_LENGTH\<close> cells and the program states the
    assumption that no file needs more; the embedding describes the runs within it.
  \<^item> Diagnostics printed with \<open>printf\<close> are not part of the state; the sticky error
    flag that accompanies each of them is.
\<close>

subsection \<open>Constants of general.h and front\_end.h\<close>

type_synonym short = "16 word"

definition MAX_LINE_LEN :: nat where [simp]: "MAX_LINE_LEN = 82"
definition MAX_LABEL_LEN :: nat where [simp]: "MAX_LABEL_LEN = 32"
definition HASH_TABLE_SIZE :: nat where [simp]: "HASH_TABLE_SIZE = 19"
definition MAX_INST_OPERANDS :: nat where [simp]: "MAX_INST_OPERANDS = 2"
definition DESTINATION_OPERAND :: nat where [simp]: "DESTINATION_OPERAND = 1"
definition SOURCE_OPERAND :: nat where [simp]: "SOURCE_OPERAND = 0"
definition NON_VALID_NUM :: int where [simp]: "NON_VALID_NUM = 3000"
definition MIN_12_BIT_VALUE :: int where [simp]: "MIN_12_BIT_VALUE = - 2048"
definition MAX_12_BIT_VALUE :: int where [simp]: "MAX_12_BIT_VALUE = 2047"

datatype status = NO_ERRORS | SYNTAX_OR_LOGIC_ERROR | MEMORY_ALLOCATION_ERROR

subsection \<open>Character classes of ctype.h (C locale)\<close>

definition isspace :: "char \<Rightarrow> bool" where
  "isspace c = (let n = (of_char c :: nat) in n = 32 \<or> (9 \<le> n \<and> n \<le> 13))"

definition isdigit :: "char \<Rightarrow> bool" where
  "isdigit c = (let n = (of_char c :: nat) in 48 \<le> n \<and> n \<le> 57)"

definition isalpha :: "char \<Rightarrow> bool" where
  "isalpha c = (let n = (of_char c :: nat) in (65 \<le> n \<and> n \<le> 90) \<or> (97 \<le> n \<and> n \<le> 122))"

definition isprint :: "char \<Rightarrow> bool" where
  "isprint c = (let n = (of_char c :: nat) in 32 \<le> n \<and> n \<le> 126)"

subsection \<open>general.c: get\_word, is\_directive, is\_operation, hash\<close>

definition is_separator :: "char \<Rightarrow> bool" where
  "is_separator c = (isspace c \<or> c = CHR '','')"

text \<open>
  \<open>get_word\<close> advances the caller's line pointer past leading white space and commas
  and returns the next word, or NULL at the end of the string. The result is the word
  (if any) and the advanced line.
\<close>

definition get_word :: "string \<Rightarrow> string option \<times> string" where
  "get_word line =
     (let l = dropWhile is_separator line
      in if l = [] then (None, l)
         else (Some (takeWhile (\<lambda>c. \<not> is_separator c) l),
               dropWhile (\<lambda>c. \<not> is_separator c) l))"

text \<open>A word that is found is taken off the line: the loops over words terminate.\<close>

lemma get_word_shorter:
  assumes "fst (get_word line) = Some word"
  shows "length (snd (get_word line)) < length line"
proof -
  have ne: "dropWhile is_separator line \<noteq> []"
    using assms by (auto simp: get_word_def Let_def split: if_splits)
  then obtain c cs where l: "dropWhile is_separator line = c # cs"
    by (cases "dropWhile is_separator line") auto
  have c: "\<not> is_separator c"
    using hd_dropWhile [OF ne] l by simp
  have "length (dropWhile (\<lambda>c. \<not> is_separator c) cs) \<le> length cs"
    by (rule length_dropWhile_le)
  moreover have "length (c # cs) \<le> length line"
    using length_dropWhile_le [of is_separator line] l by simp
  ultimately show ?thesis
    using c l by (simp add: get_word_def Let_def)
qed

fun index_of :: "string \<Rightarrow> string list \<Rightarrow> int \<Rightarrow> int" where
  "index_of word [] i = - 1"
| "index_of word (w # ws) i = (if word = w then i else index_of word ws (i + 1))"

definition directives :: "string list" where
  "directives = [''.data'', ''.string'', ''.entry'', ''.extern'']"

definition is_directive :: "string \<Rightarrow> int" where
  "is_directive word = index_of word directives 0"

definition operations :: "string list" where
  "operations = [''mov'', ''cmp'', ''add'', ''sub'', ''not'', ''clr'', ''lea'', ''inc'',
                 ''dec'', ''jmp'', ''bne'', ''red'', ''prn'', ''jsr'', ''rts'', ''hlt'']"

definition is_operation :: "string \<Rightarrow> int" where
  "is_operation word = index_of word operations 0"

text \<open>
  djb2 on \<open>unsigned int\<close>; \<open>*name\<close> is a (signed) \<open>char\<close>, so a byte above 127 is
  sign-extended before it is added.
\<close>

definition char_value :: "char \<Rightarrow> 32 word" where
  "char_value c = (let n = (of_char c :: nat) in if n < 128 then of_nat n else of_nat n - 256)"

definition hash :: "string \<Rightarrow> nat" where
  "hash name = unat (foldl (\<lambda>hash_value c. (push_bit 5 hash_value + hash_value) + char_value c)
                       (5381 :: 32 word) name mod of_nat HASH_TABLE_SIZE)"

subsection \<open>front\_end.c: labels, registers, numbers\<close>

datatype type_of_label = pre_line_label | operand_label

definition registers :: "string list" where
  "registers = [''r0'', ''r1'', ''r2'', ''r3'', ''r4'', ''r5'', ''r6'', ''r7'', ''PSW'', ''PC'']"

definition is_register :: "string \<Rightarrow> int" where
  "is_register word = index_of word registers 0"

text \<open>
  \<open>word[k]\<close> for \<open>k \<le> strlen(word)\<close>: the byte at \<open>k\<close>, the terminating NUL at the end.
\<close>

definition char_at :: "string \<Rightarrow> nat \<Rightarrow> char" where
  "char_at word k = (if k < length word then word ! k else CHR 0x00)"

text \<open>
  \<open>is_label\<close>. For a pre-line label the copy without the suffix is made with
  \<open>strncpy\<close> into a fresh buffer; the buffer is taken to end after the copied bytes.
\<close>

definition is_label :: "string \<Rightarrow> type_of_label \<Rightarrow> status" where
  "is_label word label_position =
     (let word_length_without_suffix =
            (if label_position = pre_line_label then int (length word) - 1 else int (length word))
      in if word_length_without_suffix > int MAX_LABEL_LEN \<or> \<not> isalpha (char_at word 0)
            \<or> (label_position = pre_line_label
                \<and> char_at word (nat word_length_without_suffix) \<noteq> CHR '':'')
         then SYNTAX_OR_LOGIC_ERROR
         else if \<exists>c \<in> set (take (nat word_length_without_suffix) word). \<not> isalpha c \<and> \<not> isdigit c
         then SYNTAX_OR_LOGIC_ERROR
         else let word_without_suffix =
                    (if label_position = pre_line_label
                     then take (nat word_length_without_suffix) word else word)
              in if is_register word_without_suffix \<noteq> - 1
                    \<or> is_directive word_without_suffix \<noteq> - 1
                    \<or> is_operation word_without_suffix \<noteq> - 1
                 then SYNTAX_OR_LOGIC_ERROR
                 else NO_ERRORS)"

fun digits_value :: "string \<Rightarrow> int \<Rightarrow> int" where
  "digits_value [] acc = acc"
| "digits_value (c # cs) acc = digits_value cs (acc * 10 + (int (of_char c) - 48))"

text \<open>
  \<open>strtol(word, &end_ptr, 10)\<close>: optional white space, an optional sign, decimal
  digits. Without a digit nothing is converted: the value is 0 and \<open>end_ptr\<close> is the
  start of the word. The result is the value and the text at \<open>end_ptr\<close>. The callers
  pass at most five characters, so the value is within \<open>long\<close>.
\<close>

definition strtol :: "string \<Rightarrow> int \<times> string" where
  "strtol word =
     (let t = dropWhile isspace word;
          neg = (t \<noteq> [] \<and> hd t = CHR ''-'');
          u = (if t \<noteq> [] \<and> (hd t = CHR ''-'' \<or> hd t = CHR ''+'') then tl t else t);
          ds = takeWhile isdigit u
      in if ds = [] then (0, word)
         else (if neg then - digits_value ds 0 else digits_value ds 0, dropWhile isdigit u))"

definition is_valid_num :: "string \<Rightarrow> int" where
  "is_valid_num word =
     (if length word > 5 then NON_VALID_NUM
      else let (converted_num, end_ptr) = strtol word
           in if end_ptr \<noteq> [] then NON_VALID_NUM
              else if converted_num \<ge> MIN_12_BIT_VALUE \<and> converted_num \<le> MAX_12_BIT_VALUE
                   then converted_num
                   else NON_VALID_NUM)"

subsection \<open>front\_end.h: the abstract syntax tree of a line\<close>

text \<open>
  Each C struct has a field called \<open>type\<close>; the records name it \<open>otype\<close> (operand),
  \<open>dtype\<close> (directive), \<open>itype\<close> (instruction) and \<open>atype\<close> (line). The fields \<open>label\<close>
  are \<open>op_label\<close> and \<open>ast_label\<close>. The members of a C union are separate fields; the
  program reads only the member that the discriminating field selects.
\<close>

datatype operand_type = none | number | constant_op | reg | label | label_with_index

record INST_OPERAND =
  otype :: operand_type
  num :: int
  op_label :: string
  constant_name :: string

datatype data_kind = data_int | data_constant

record DATA =
  data_type :: data_kind
  data_num :: int
  data_constant_name :: string

datatype directive_type = data | string | entry | ext

record DIRECTIVE =
  dtype :: directive_type
  operand_counter :: int
  data_operands :: "DATA list"
  str :: "int list"
  label_operand :: string

datatype instruction_type =
  mov | cmp | add_op | sub_op | not_op | clr | lea | inc_op | dec_op | jmp | bne | red | prn
  | jsr | rts | hlt

record INSTRUCTION =
  itype :: instruction_type
  operands :: "INST_OPERAND list"

record CONSTANT_DEFINITION =
  def_constant_name :: string
  constant_num :: int

datatype ast_type = error | empty_line | note_line | dir | inst | constant_def

record LINE_AST =
  error_detail :: string
  ast_label :: string
  atype :: ast_type
  directive :: DIRECTIVE
  instruction :: INSTRUCTION
  constant_definition :: CONSTANT_DEFINITION

text \<open>The values of the enumerators, for the comparisons the program makes on them.\<close>

fun enum_ast :: "ast_type \<Rightarrow> int" where
  "enum_ast error = 0" | "enum_ast empty_line = 1" | "enum_ast note_line = 2"
| "enum_ast dir = 3" | "enum_ast inst = 4" | "enum_ast constant_def = 5"

fun enum_inst :: "instruction_type \<Rightarrow> int" where
  "enum_inst mov = 0" | "enum_inst cmp = 1" | "enum_inst add_op = 2" | "enum_inst sub_op = 3"
| "enum_inst not_op = 4" | "enum_inst clr = 5" | "enum_inst lea = 6" | "enum_inst inc_op = 7"
| "enum_inst dec_op = 8" | "enum_inst jmp = 9" | "enum_inst bne = 10" | "enum_inst red = 11"
| "enum_inst prn = 12" | "enum_inst jsr = 13" | "enum_inst rts = 14" | "enum_inst hlt = 15"

definition instruction_of :: "int \<Rightarrow> instruction_type" where
  "instruction_of i = [mov, cmp, add_op, sub_op, not_op, clr, lea, inc_op, dec_op, jmp, bne, red,
                       prn, jsr, rts, hlt] ! nat i"

definition directive_of :: "int \<Rightarrow> directive_type" where
  "directive_of i = [data, string, entry, ext] ! nat i"

text \<open>The values of \<open>NO_ERRORS\<close> and of the enumerator \<open>error\<close> as the parser returns them.\<close>

definition NO_ERRORS_flag :: int where [simp]: "NO_ERRORS_flag = 1"
definition error_flag :: int where [simp]: "error_flag = 0"

text \<open>\<open>LINE_AST ast = {0}\<close>.\<close>

definition zero_operand :: INST_OPERAND where
  "zero_operand = \<lparr>otype = none, num = 0, op_label = [], constant_name = []\<rparr>"

definition zero_ast :: LINE_AST where
  "zero_ast = \<lparr>error_detail = [], ast_label = [], atype = error,
     directive = \<lparr>dtype = data, operand_counter = 0, data_operands = [], str = [],
                  label_operand = []\<rparr>,
     instruction = \<lparr>itype = mov, operands = [zero_operand, zero_operand]\<rparr>,
     constant_definition = \<lparr>def_constant_name = [], constant_num = 0\<rparr>\<rparr>"

definition set_error :: "LINE_AST \<Rightarrow> string \<Rightarrow> LINE_AST" where
  "set_error ast detail = ast\<lparr>error_detail := detail\<rparr>"

subsection \<open>front\_end.c: is\_label\_with\_index\<close>

definition is_label_with_index :: "string \<Rightarrow> INST_OPERAND \<Rightarrow> status \<times> INST_OPERAND" where
  "is_label_with_index word operand =
     (if CHR ''['' \<notin> set word \<or> char_at word 0 = CHR ''['' then (SYNTAX_OR_LOGIC_ERROR, operand)
      else let label_part = takeWhile (\<lambda>c. c \<noteq> CHR ''['') word;
               label_result = is_label label_part operand_label
           in if label_result = SYNTAX_OR_LOGIC_ERROR then (SYNTAX_OR_LOGIC_ERROR, operand)
              else if label_result = MEMORY_ALLOCATION_ERROR then (MEMORY_ALLOCATION_ERROR, operand)
              else let operand = operand\<lparr>op_label := label_part\<rparr>;
                       index_char = tl (dropWhile (\<lambda>c. c \<noteq> CHR ''['') word)
                   in if CHR '']'' \<notin> set index_char
                         \<or> tl (dropWhile (\<lambda>c. c \<noteq> CHR '']'') index_char) \<noteq> []
                      then (SYNTAX_OR_LOGIC_ERROR, operand)
                      else let index_part = takeWhile (\<lambda>c. c \<noteq> CHR '']'') index_char;
                               index_result = is_valid_num index_part
                           in if index_result \<noteq> NON_VALID_NUM
                              then (NO_ERRORS, operand\<lparr>num := index_result\<rparr>)
                              else let index_result = is_label index_part operand_label
                                   in if index_result = NO_ERRORS
                                      then (NO_ERRORS, operand\<lparr>constant_name := index_part\<rparr>)
                                      else if index_result = SYNTAX_OR_LOGIC_ERROR
                                      then (SYNTAX_OR_LOGIC_ERROR, operand)
                                      else (MEMORY_ALLOCATION_ERROR, operand))"

subsection \<open>front\_end.c: check\_line\_type\<close>

text \<open>
  The loop \<open>while (word)\<close> of \<open>check_line_type\<close>, entered with the first word. It goes
  round a second time only after a label in first position. The result is the line
  type, the advanced line and the updated tree.
\<close>

function check_line_loop ::
  "string option \<Rightarrow> string \<Rightarrow> nat \<Rightarrow> LINE_AST \<Rightarrow> ast_type \<times> string \<times> LINE_AST" where
  "check_line_loop word line word_cnt ast =
     (case word of
        None \<Rightarrow>
          (if line = []
           then (if word_cnt = 0 then (empty_line, line, ast)
                 else (error, line, set_error ast ''the line contains only label name''))
           else (error, line, set_error ast ''memory allocation failed''))
      | Some w \<Rightarrow>
          (let cnt = word_cnt + 1; is_label_res = is_label w pre_line_label
           in if is_label_res = NO_ERRORS
              then (if cnt = 1
                    then check_line_loop (fst (get_word line)) (snd (get_word line)) 1
                           (ast\<lparr>ast_label := take (length w - 1) w\<rparr>)
                    else (error, line, set_error ast ''a label is in an invalid place''))
              else if is_label_res = MEMORY_ALLOCATION_ERROR
              then (error, line, set_error ast ''memory allocation failed'')
              else if is_directive w \<noteq> - 1
              then (dir, line,
                    ast\<lparr>directive := (directive ast)\<lparr>dtype := directive_of (is_directive w)\<rparr>\<rparr>)
              else if is_operation w \<noteq> - 1
              then (inst, line,
                    ast\<lparr>instruction := (instruction ast)\<lparr>itype := instruction_of (is_operation w)\<rparr>\<rparr>)
              else if w = ''.define''
              then (if cnt = 1 then (constant_def, line, ast)
                    else (error, line,
                          set_error ast ''a label must not be defined in a constant definition line''))
              else (if cnt = 1
                    then (error, line, set_error ast
                      ''the first word must be an instruction or directive or .define or label name'')
                    else (error, line, set_error ast
                      ''after defining a label there must be an instruction  or directive''))))"
  by pat_completeness auto
termination
  by (relation "measure (\<lambda>(word, line, word_cnt, ast). if word_cnt = 0 then 1 else 0)") auto

declare check_line_loop.simps [simp del]

definition check_line_type :: "string \<Rightarrow> LINE_AST \<Rightarrow> ast_type \<times> string \<times> LINE_AST" where
  "check_line_type line ast =
     (if char_at line 0 = CHR '';'' then (note_line, line, ast)
      else check_line_loop (fst (get_word line)) (snd (get_word line)) 0 ast)"

subsection \<open>front\_end.c: check\_dir\_operand\<close>

definition data_item_int :: "int \<Rightarrow> DATA" where
  "data_item_int n = \<lparr>data_type = data_int, data_num = n, data_constant_name = []\<rparr>"

definition data_item_constant :: "string \<Rightarrow> DATA" where
  "data_item_constant name = \<lparr>data_type = data_constant, data_num = 0, data_constant_name = name\<rparr>"

text \<open>
  \<open>data[op_cnt - 1] = ...; operand_counter = op_cnt\<close>: the operands are stored one
  after the other, from the first cell on.
\<close>

definition add_data_operand :: "LINE_AST \<Rightarrow> int \<Rightarrow> DATA \<Rightarrow> LINE_AST" where
  "add_data_operand ast op_cnt d =
     ast\<lparr>directive := (directive ast)\<lparr>data_operands := data_operands (directive ast) @ [d],
                                       operand_counter := op_cnt\<rparr>\<rparr>"

text \<open>
  The loop of the \<open>.data\<close> branch. \<open>**line != EOF\<close> compares a \<open>char\<close> with \<open>-1\<close>: with
  a signed \<open>char\<close> the loop also stops at the byte \<open>0xFF\<close>.
\<close>

function check_data_loop :: "string \<Rightarrow> nat \<Rightarrow> int \<Rightarrow> LINE_AST \<Rightarrow> int \<times> string \<times> LINE_AST" where
  "check_data_loop line comma_cnt op_cnt ast =
     (if line \<noteq> [] \<and> hd line \<noteq> CHR 0xFF
      then (if isspace (hd line) then check_data_loop (tl line) comma_cnt op_cnt ast
            else if hd line = CHR '',''
            then (if comma_cnt > 0
                  then (error_flag, line,
                        set_error ast ''there are 2 commas between a number and another number'')
                  else check_data_loop (tl line) (comma_cnt + 1) op_cnt ast)
            else (case fst (get_word line) of
                    None \<Rightarrow> (error_flag, snd (get_word line), set_error ast ''memory allocation failed'')
                  | Some word \<Rightarrow>
                      (if is_valid_num word \<noteq> NON_VALID_NUM
                       then check_data_loop (snd (get_word line)) 0 (op_cnt + 1)
                              (add_data_operand ast (op_cnt + 1) (data_item_int (is_valid_num word)))
                       else if is_label word operand_label = NO_ERRORS
                       then check_data_loop (snd (get_word line)) 0 (op_cnt + 1)
                              (add_data_operand ast (op_cnt + 1) (data_item_constant word))
                       else if is_label word operand_label = MEMORY_ALLOCATION_ERROR
                       then (error_flag, snd (get_word line), set_error ast ''memory allocation failed'')
                       else (error_flag, snd (get_word line), set_error ast
                         (''for the data directive, you can only enter integers that can be ''
                          @ ''represented in 12 bits by the 2's complement method or or words ''
                          @ ''that meet the syntax requirements of a label'')))))
      else if comma_cnt \<noteq> 0
      then (error_flag, line, set_error ast ''there is a comma after the last number'')
      else (NO_ERRORS_flag, line, ast))"
  by pat_completeness auto
termination
  by (relation "measure (\<lambda>(line, comma_cnt, op_cnt, ast). length line)")
     (auto simp: get_word_shorter)

declare check_data_loop.simps [simp del]

definition check_dir_operand :: "string \<Rightarrow> LINE_AST \<Rightarrow> int \<times> string \<times> LINE_AST" where
  "check_dir_operand line ast =
     (if line = []
      then (error_flag, line, set_error ast ''a directive word must be followed by an operand'')
      else if dtype (directive ast) = entry \<or> dtype (directive ast) = ext
      then (case fst (get_word line) of
              None \<Rightarrow> (error_flag, snd (get_word line), set_error ast ''memory allocation failed'')
            | Some word \<Rightarrow>
                (if is_label word operand_label = MEMORY_ALLOCATION_ERROR
                 then (error_flag, snd (get_word line), set_error ast ''memory allocation failed'')
                 else if is_label word operand_label = SYNTAX_OR_LOGIC_ERROR
                 then (error_flag, snd (get_word line), set_error ast
                        ''an operand of entry and extern must be a proper name of a label'')
                 else (NO_ERRORS_flag, snd (get_word line),
                       ast\<lparr>directive := (directive ast)\<lparr>label_operand := word\<rparr>\<rparr>)))
      else if dtype (directive ast) = string
      then (if hd line \<noteq> CHR 0x22
            then (error_flag, line, set_error ast
                   (''after the string directive the operand must start with the character ''
                    @ [CHR 0x22, CHR '' '']))
            else (case fst (get_word (tl line)) of
                    None \<Rightarrow>
                      (if snd (get_word (tl line)) = []
                       then (error_flag, snd (get_word (tl line)), set_error ast
                         ''a string directive must have at least one character after the quotation marks '')
                       else (error_flag, snd (get_word (tl line)),
                             set_error ast ''memory allocation failed''))
                  | Some word \<Rightarrow>
                      (if last word \<noteq> CHR 0x22
                       then (error_flag, snd (get_word (tl line)), set_error ast
                              ''in the operand of the directive string there is no closing hyphen'')
                       else if list_all isprint (butlast word)
                       then (NO_ERRORS_flag, snd (get_word (tl line)),
                             ast\<lparr>directive := (directive ast)
                                   \<lparr>str := map (\<lambda>c. int (of_char c)) (butlast word)\<rparr>\<rparr>)
                       else (error_flag, snd (get_word (tl line)), set_error
                              (ast\<lparr>directive := (directive ast)
                                   \<lparr>str := map (\<lambda>c. int (of_char c))
                                              (takeWhile isprint (butlast word))\<rparr>\<rparr>)
                              (''the operand of the string directive must include only alphabetic ''
                               @ ''letters between the 2 hyphenes'')))))
      else check_data_loop line 0 0 ast)"

subsection \<open>front\_end.c: check\_inst\_operand\<close>

definition inappropriate :: string where
  "inappropriate = ''the operation type received an operand of an inappropriate type''"

definition set_operand :: "LINE_AST \<Rightarrow> nat \<Rightarrow> INST_OPERAND \<Rightarrow> LINE_AST" where
  "set_operand ast operand_cnt operand =
     ast\<lparr>instruction := (instruction ast)
           \<lparr>operands := (operands (instruction ast))[operand_cnt := operand]\<rparr>\<rparr>"

text \<open>
  The classification of one operand word, the if-chain inside the loop of
  \<open>check_inst_operand\<close>: \<open>Inl\<close> where the function returns \<open>error\<close>, \<open>Inr\<close> where it goes on
  with the updated tree.
\<close>

definition classify_operand :: "string \<Rightarrow> nat \<Rightarrow> LINE_AST \<Rightarrow> LINE_AST + LINE_AST" where
  "classify_operand word operand_cnt ast =
     (let t = itype (instruction ast);
          this = operands (instruction ast) ! operand_cnt
      in if char_at word 0 = CHR ''#''
         then (if (operand_cnt = DESTINATION_OPERAND \<and> t \<noteq> cmp \<and> t \<noteq> prn)
                  \<or> (operand_cnt = SOURCE_OPERAND \<and> t = lea)
               then Inl (set_error ast inappropriate)
               else if length word = 1
               then Inl (set_error ast ''# must be followed by a number or constant'')
               else if is_valid_num (tl word) \<noteq> NON_VALID_NUM
               then Inr (set_operand ast operand_cnt
                          (this\<lparr>otype := number, num := is_valid_num (tl word)\<rparr>))
               else if is_label (tl word) operand_label \<noteq> SYNTAX_OR_LOGIC_ERROR
               then (if is_label (tl word) operand_label = MEMORY_ALLOCATION_ERROR
                     then Inl (set_error ast ''memory allocation failed'')
                     else Inr (set_operand ast operand_cnt
                                (this\<lparr>otype := constant_op, constant_name := tl word\<rparr>)))
               else Inl (set_error ast ''# must be followed by a constant or a number''))
         else if is_label word operand_label \<noteq> SYNTAX_OR_LOGIC_ERROR
         then (if is_label word operand_label = MEMORY_ALLOCATION_ERROR
               then Inl (set_error ast ''memory allocation failed'')
               else Inr (set_operand ast operand_cnt (this\<lparr>otype := label, op_label := word\<rparr>)))
         else (let res_label_w_index = fst (is_label_with_index word this);
                   that = snd (is_label_with_index word this);
                   ast1 = set_operand ast operand_cnt that
               in if res_label_w_index \<noteq> SYNTAX_OR_LOGIC_ERROR
                  then (if res_label_w_index = MEMORY_ALLOCATION_ERROR
                        then Inl (set_error ast1 ''memory allocation failed'')
                        else if operand_cnt = DESTINATION_OPERAND \<and> (t = jmp \<or> t = bne \<or> t = jsr)
                        then Inl (set_error ast1 inappropriate)
                        else Inr (set_operand ast1 operand_cnt (that\<lparr>otype := label_with_index\<rparr>)))
                  else if is_register word \<noteq> - 1
                  then (if operand_cnt = SOURCE_OPERAND \<and> t = lea
                        then Inl (set_error ast1 inappropriate)
                        else Inr (set_operand ast1 operand_cnt
                                   (that\<lparr>otype := reg, num := is_register word\<rparr>)))
                  else Inl (set_error ast1 inappropriate)))"

text \<open>
  The loop after the source operand: white space and commas are skipped, a second
  comma is an error (\<open>None\<close>).
\<close>

fun skip_to_destination :: "string \<Rightarrow> nat \<Rightarrow> (string \<times> nat) option" where
  "skip_to_destination [] comma_flag = Some ([], comma_flag)"
| "skip_to_destination (c # cs) comma_flag =
     (if isspace c \<or> c = CHR '',''
      then (if c = CHR '',''
            then (if comma_flag > 0 then None else skip_to_destination cs (comma_flag + 1))
            else skip_to_destination cs comma_flag)
      else Some (c # cs, comma_flag))"

function check_inst_loop :: "nat \<Rightarrow> nat \<Rightarrow> string \<Rightarrow> LINE_AST \<Rightarrow> int \<times> string \<times> LINE_AST" where
  "check_inst_loop operand_cnt comma_flag line ast =
     (if operand_cnt < MAX_INST_OPERANDS
      then (case fst (get_word line) of
              None \<Rightarrow>
                (if snd (get_word line) = []
                 then (error_flag, snd (get_word line), set_error ast ''missing operand'')
                 else (error_flag, snd (get_word line), set_error ast ''memory allocation failed''))
            | Some word \<Rightarrow>
                (case classify_operand word operand_cnt ast of
                   Inl ast1 \<Rightarrow> (error_flag, snd (get_word line), ast1)
                 | Inr ast1 \<Rightarrow>
                     (if operand_cnt = SOURCE_OPERAND
                      then (case skip_to_destination (snd (get_word line)) comma_flag of
                              None \<Rightarrow> (error_flag, snd (get_word line),
                                       set_error ast1 ''multiple commas between 2 operands'')
                            | Some (line1, comma_flag1) \<Rightarrow>
                                (if line1 = []
                                 then (error_flag, line1, set_error ast1 ''missing operand'')
                                 else check_inst_loop (operand_cnt + 1) comma_flag1 line1 ast1))
                      else check_inst_loop (operand_cnt + 1) comma_flag (snd (get_word line)) ast1)))
      else (NO_ERRORS_flag, line, ast))"
  by pat_completeness auto
termination
  by (relation "measure (\<lambda>(operand_cnt, comma_flag, line, ast). 2 - operand_cnt)") auto

declare check_inst_loop.simps [simp del]

definition check_inst_operand :: "string \<Rightarrow> LINE_AST \<Rightarrow> int \<times> string \<times> LINE_AST" where
  "check_inst_operand line ast =
     (let t = enum_inst (itype (instruction ast));
          operand_cnt = (if t \<ge> enum_inst rts then MAX_INST_OPERANDS
                         else if t > enum_inst sub_op \<and> t < enum_inst rts \<and> t \<noteq> enum_inst lea
                         then DESTINATION_OPERAND else SOURCE_OPERAND)
      in check_inst_loop operand_cnt 0 line ast)"

subsection \<open>front\_end.c: check\_constant\_def\_operand, check\_operand, create\_ast\_from\_text\<close>

definition check_constant_def_operand :: "string \<Rightarrow> LINE_AST \<Rightarrow> int \<times> string \<times> LINE_AST" where
  "check_constant_def_operand line ast =
     (if line = []
      then (error_flag, line,
            set_error ast ''a constant definition is missing after the word define'')
      else case fst (get_word line) of
        None \<Rightarrow> (error_flag, snd (get_word line), set_error ast ''memory allocation failed'')
      | Some word \<Rightarrow>
          (if is_label word operand_label = SYNTAX_OR_LOGIC_ERROR
           then (error_flag, snd (get_word line), set_error ast
                  ''the first word after .define does not follow the syntax rules for a label'')
           else if is_label word operand_label = MEMORY_ALLOCATION_ERROR
           then (error_flag, snd (get_word line), set_error ast ''memory allocation failed'')
           else let ast1 = ast\<lparr>constant_definition :=
                                 (constant_definition ast)\<lparr>def_constant_name := word\<rparr>\<rparr>;
                    line1 = dropWhile isspace (snd (get_word line))
                in if char_at line1 0 \<noteq> CHR ''=''
                   then (error_flag, line1, set_error ast1
                          ''missing the equality sign in a constant definition statment'')
                   else let line2 = dropWhile isspace (tl line1)
                        in if line2 = []
                           then (error_flag, line2, set_error ast1
                                  ''missing a  number in a constant definition statement'')
                           else case fst (get_word line2) of
                             None \<Rightarrow> (error_flag, snd (get_word line2),
                                      set_error ast1 ''memory allocation failed'')
                           | Some word2 \<Rightarrow>
                               (if is_valid_num word2 = NON_VALID_NUM
                                then (error_flag, snd (get_word line2), set_error ast1
                                  ''a no valid number is given in a constant definition statement'')
                                else (NO_ERRORS_flag, snd (get_word line2),
                                      ast1\<lparr>constant_definition := (constant_definition ast1)
                                             \<lparr>constant_num := is_valid_num word2\<rparr>\<rparr>))))"

definition check_operand :: "string \<Rightarrow> LINE_AST \<Rightarrow> int \<times> string \<times> LINE_AST" where
  "check_operand line ast =
     (let line1 = dropWhile isspace line
      in if char_at line1 0 = CHR '',''
         then (error_flag, line1,
               set_error ast ''there is a comma, after an instruction/directive/define'')
         else if atype ast = error \<or> atype ast = empty_line \<or> atype ast = note_line
         then (enum_ast (atype ast), line1, ast)
         else let (syntax_flag, line2, ast2) =
                    (if atype ast = dir then check_dir_operand line1 ast
                     else if atype ast = inst then check_inst_operand line1 ast
                     else check_constant_def_operand line1 ast)
              in if syntax_flag = error_flag then (error_flag, line2, ast2)
                 else let line3 = dropWhile isspace line2
                      in if line3 \<noteq> []
                         then (error_flag, line3,
                               set_error ast2 ''unexpected characters after operands'')
                         else (syntax_flag, line3, ast2))"

definition create_ast_from_text :: "string \<Rightarrow> LINE_AST" where
  "create_ast_from_text line =
     (let (t, line1, ast0) = check_line_type line zero_ast;
          ast = ast0\<lparr>atype := t\<rparr>
      in if error_detail ast = ''memory allocation failed'' then ast
         else let (syntax_flag, line2, ast2) = check_operand line1 ast
              in if syntax_flag = error_flag then ast2\<lparr>atype := error\<rparr> else ast2)"

subsection \<open>general.h: symbols and the translation unit\<close>

datatype symbol_type =
  extern_sym | entry_sym_without_definition | data_entry_sym | inst_entry_sym | data_sym
  | inst_sym | const_sym

text \<open>
  The fields \<open>name\<close>, \<open>type\<close>, \<open>address\<close> and \<open>value\<close> of \<open>SYMBOL\<close>; the field \<open>next\<close> is
  the order of the chain that holds the node.
\<close>

record SYMBOL =
  sym_name :: string
  stype :: symbol_type
  address :: int
  sym_value :: int

text \<open>An external symbol with its linked list of addresses, head first.\<close>

record EXT_SYMBOL =
  ext_name :: string
  ext_address :: "int list"

text \<open>
  \<open>symbols\<close> is the store of the \<open>SYMBOL\<close> nodes; \<open>symbol_table\<close> holds the
  \<open>HASH_TABLE_SIZE\<close> chains of pointers into it, and an \<open>ENTRY_NODE\<close> is the pointer it
  carries.
\<close>

record TRANSLATION_UNIT =
  instruction_array :: "int \<Rightarrow> short"
  data_array :: "int \<Rightarrow> short"
  ic :: int
  dc :: int
  symbols :: "SYMBOL list"
  symbol_table :: "nat list list"
  ext_list :: "EXT_SYMBOL list"
  external_counter :: int
  entries_list :: "nat list"
  entries_counter :: int

text \<open>\<open>memset(&curr_program, 0, sizeof(curr_program))\<close> in \<open>main\<close>.\<close>

definition zero_unit :: TRANSLATION_UNIT where
  "zero_unit = \<lparr>instruction_array = (\<lambda>i. 0), data_array = (\<lambda>i. 0), ic = 0, dc = 0,
     symbols = [], symbol_table = replicate HASH_TABLE_SIZE [], ext_list = [],
     external_counter = 0, entries_list = [], entries_counter = 0\<rparr>"

definition symbol_lookup :: "string \<Rightarrow> TRANSLATION_UNIT \<Rightarrow> nat option" where
  "symbol_lookup word unit =
     find (\<lambda>current. sym_name (symbols unit ! current) = word) (symbol_table unit ! hash word)"

subsection \<open>pre\_assembler.c\<close>

record MACRO =
  macro_name :: string
  content :: "string list"

text \<open>The store of the \<open>MACRO\<close> nodes and the chains of the hash table.\<close>

record MACRO_TABLE =
  macros :: "MACRO list"
  macro_chains :: "nat list list"

text \<open>\<open>MACRO *macro_table[HASH_TABLE_SIZE] = {0}\<close> in \<open>main\<close>.\<close>

definition zero_macro_table :: MACRO_TABLE where
  "zero_macro_table = \<lparr>macros = [], macro_chains = replicate HASH_TABLE_SIZE []\<rparr>"

definition macro_lookup :: "string \<Rightarrow> MACRO_TABLE \<Rightarrow> nat option" where
  "macro_lookup word macro_table =
     find (\<lambda>current. macro_name (macros macro_table ! current) = word)
          (macro_chains macro_table ! hash word)"

definition insert_macro :: "string \<Rightarrow> MACRO_TABLE \<Rightarrow> nat \<times> MACRO_TABLE" where
  "insert_macro word macro_table =
     (let index = hash word; new_macro = length (macros macro_table)
      in (new_macro,
          macro_table\<lparr>macros := macros macro_table @ [\<lparr>macro_name = word, content = []\<rparr>],
                      macro_chains := (macro_chains macro_table)
                         [index := new_macro # macro_chains macro_table ! index]\<rparr>))"

definition text_insert :: "nat \<Rightarrow> string \<Rightarrow> MACRO_TABLE \<Rightarrow> MACRO_TABLE" where
  "text_insert macro line macro_table =
     macro_table\<lparr>macros := (macros macro_table)
       [macro := (macros macro_table ! macro)
                   \<lparr>content := content (macros macro_table ! macro) @ [line]\<rparr>]\<rparr>"

datatype pre_line_type =
  error_line | macro_definition | end_macro_definition | macro_call | note_sentence
  | any_other_line

text \<open>
  \<open>line_identifier\<close>: the loop over the words of the line with the locals \<open>word_cnt\<close>,
  \<open>mcr_definition\<close>, \<open>end_mcr\<close> and \<open>macro_name\<close>, and the code after the loop (the case
  \<open>None\<close>). The result is the line type, \<open>*mcr_ptr\<close> and the macro table.
\<close>

function line_identifier_loop ::
  "string \<Rightarrow> nat \<Rightarrow> bool \<Rightarrow> bool \<Rightarrow> string option \<Rightarrow> nat option \<Rightarrow> MACRO_TABLE
   \<Rightarrow> pre_line_type \<times> nat option \<times> MACRO_TABLE" where
  "line_identifier_loop line word_cnt mcr_definition end_mcr name mcr_ptr macro_table =
     (case fst (get_word line) of
        None \<Rightarrow>
          (if snd (get_word line) = []
           then (if mcr_definition
                 then (if word_cnt = 1 then (error_line, mcr_ptr, macro_table)
                       else (case name of
                               None \<Rightarrow> (error_line, mcr_ptr, macro_table)
                             | Some new_name \<Rightarrow>
                                 (if macro_lookup new_name macro_table = None
                                  then (macro_definition,
                                        Some (fst (insert_macro new_name macro_table)),
                                        snd (insert_macro new_name macro_table))
                                  else (error_line, mcr_ptr, macro_table))))
                 else if end_mcr then (end_macro_definition, None, macro_table)
                 else (any_other_line, mcr_ptr, macro_table))
           else (error_line, mcr_ptr, macro_table))
      | Some word \<Rightarrow>
          (let cnt = word_cnt + 1; rest = snd (get_word line)
           in if cnt = 1 \<and> hd word = CHR '';'' then (note_sentence, mcr_ptr, macro_table)
              else if word = ''mcr''
              then (if cnt > 1 then (error_line, mcr_ptr, macro_table)
                    else line_identifier_loop rest cnt True end_mcr name mcr_ptr macro_table)
              else if mcr_definition
              then (if cnt = 2
                    then (if macro_lookup word macro_table \<noteq> None
                          then (error_line, mcr_ptr, macro_table)
                          else if is_directive word > - 1 \<or> is_operation word > - 1
                          then (error_line, mcr_ptr, macro_table)
                          else line_identifier_loop rest cnt mcr_definition end_mcr (Some word)
                                 mcr_ptr macro_table)
                    else if cnt > 2 then (error_line, mcr_ptr, macro_table)
                    else line_identifier_loop rest cnt mcr_definition end_mcr name mcr_ptr
                           macro_table)
              else if word = ''endmcr''
              then line_identifier_loop rest cnt mcr_definition True name mcr_ptr macro_table
              else if macro_lookup word macro_table \<noteq> None
              then (macro_call, macro_lookup word macro_table, macro_table)
              else if end_mcr \<and> cnt > 1 then (error_line, mcr_ptr, macro_table)
              else line_identifier_loop rest cnt mcr_definition end_mcr name mcr_ptr macro_table))"
  by pat_completeness auto
termination
  by (relation "measure (\<lambda>(line, word_cnt, mcr_definition, end_mcr, name, mcr_ptr, macro_table).
                           length line)")
     (auto simp: get_word_shorter)

declare line_identifier_loop.simps [simp del]

definition line_identifier ::
  "string \<Rightarrow> nat option \<Rightarrow> MACRO_TABLE \<Rightarrow> pre_line_type \<times> nat option \<times> MACRO_TABLE" where
  "line_identifier line mcr_ptr macro_table =
     line_identifier_loop line 0 False False None mcr_ptr macro_table"

subsection \<open>Reading a file line by line\<close>

text \<open>
  \<open>fgets(line, size, file)\<close> reads at most \<open>size - 1\<close> bytes and stops after a newline;
  it returns NULL at the end of the file. \<open>fgets_chars\<close> gives the bytes read and the
  rest of the file; \<open>file_lines\<close> is the sequence of the buffers that the loop
  \<open>while (fgets(line, size, file))\<close> sees.
\<close>

fun fgets_chars :: "nat \<Rightarrow> string \<Rightarrow> string \<times> string" where
  "fgets_chars 0 input = ([], input)"
| "fgets_chars (Suc n) [] = ([], [])"
| "fgets_chars (Suc n) (c # cs) =
     (if c = CHR 0x0A then ([c], cs)
      else case fgets_chars n cs of (line, rest) \<Rightarrow> (c # line, rest))"

lemma fgets_chars_rest: "length (snd (fgets_chars n input)) \<le> length input"
  by (induction n input rule: fgets_chars.induct) (auto simp: case_prod_beta)

function file_lines :: "nat \<Rightarrow> string \<Rightarrow> string list" where
  "file_lines len input =
     (if input = [] \<or> len < 2 then []
      else fst (fgets_chars (len - 1) input)
           # file_lines len (snd (fgets_chars (len - 1) input)))"
  by pat_completeness auto
termination
proof (relation "measure (\<lambda>(len, input). length input)")
  show "wf (measure (\<lambda>(len, input). length input))"
    by simp
next
  fix len :: nat and input :: string
  assume a: "\<not> (input = [] \<or> len < 2)"
  then obtain c cs n where f: "input = c # cs" and n: "len - 1 = Suc n"
    by (cases input; cases "len - 1") auto
  have "length (snd (fgets_chars (Suc n) (c # cs))) \<le> length cs"
    using fgets_chars_rest [of n cs] by (simp add: case_prod_beta)
  then show "((len, snd (fgets_chars (len - 1) input)), len, input)
             \<in> measure (\<lambda>(len, input). length input)"
    using f n by simp
qed

declare file_lines.simps [simp del]

subsection \<open>pre\_assembler.c: pre\_assembly\<close>

text \<open>
  The state of the loop of \<open>pre_assembly\<close>: the pointer \<open>mcr_ptr\<close>, the flag
  \<open>mcr_def_flag\<close>, the macro table and the text written to the \<open>.am\<close> file so far.
\<close>

record pre_state =
  mcr_ptr :: "nat option"
  mcr_def_flag :: bool
  macro_table :: MACRO_TABLE
  am_file :: string

text \<open>
  One round of the loop for the buffer \<open>line\<close>; \<open>None\<close> where the function closes the
  files, removes the \<open>.am\<close> file and returns NULL. \<open>strchr(line, EOF)\<close> looks for the
  byte \<open>(char) -1\<close>.
\<close>

definition pre_assembly_line :: "string \<Rightarrow> pre_state \<Rightarrow> pre_state option" where
  "pre_assembly_line line st =
     (if CHR 0x0A \<notin> set line \<and> CHR 0xFF \<in> set line then None
      else let (kind, ptr, table) = line_identifier line (mcr_ptr st) (macro_table st);
               st1 = st\<lparr>mcr_ptr := ptr, macro_table := table\<rparr>
           in case kind of
                error_line \<Rightarrow> None
              | macro_definition \<Rightarrow> Some (st1\<lparr>mcr_def_flag := True\<rparr>)
              | end_macro_definition \<Rightarrow> Some (st1\<lparr>mcr_def_flag := False\<rparr>)
              | macro_call \<Rightarrow>
                  Some (st1\<lparr>mcr_ptr := None,
                            am_file := am_file st1 @ concat (content (macros table ! the ptr))\<rparr>)
              | note_sentence \<Rightarrow> Some (st1\<lparr>am_file := am_file st1 @ line\<rparr>)
              | any_other_line \<Rightarrow>
                  (case ptr of
                     Some macro \<Rightarrow> Some (st1\<lparr>macro_table := text_insert macro line table\<rparr>)
                   | None \<Rightarrow> Some (st1\<lparr>am_file := am_file st1 @ line\<rparr>)))"

fun pre_assembly_loop :: "string list \<Rightarrow> pre_state \<Rightarrow> pre_state option" where
  "pre_assembly_loop [] st = Some st"
| "pre_assembly_loop (line # rest) st =
     (case pre_assembly_line line st of
        None \<Rightarrow> None
      | Some st1 \<Rightarrow> pre_assembly_loop rest st1)"

text \<open>
  \<open>pre_assembly\<close> on the text of the \<open>.as\<close> file: the text of the \<open>.am\<close> file and the
  macro table, or \<open>None\<close> for the return value NULL.
\<close>

definition pre_assembly :: "string \<Rightarrow> MACRO_TABLE \<Rightarrow> (string \<times> MACRO_TABLE) option" where
  "pre_assembly as_file table =
     (case pre_assembly_loop (file_lines MAX_LINE_LEN as_file)
             \<lparr>mcr_ptr = None, mcr_def_flag = False, macro_table = table, am_file = []\<rparr> of
        None \<Rightarrow> None
      | Some st \<Rightarrow> if mcr_def_flag st then None else Some (am_file st, macro_table st))"

subsection \<open>first\_pass.c\<close>

definition insert_symbol ::
  "TRANSLATION_UNIT \<Rightarrow> string \<Rightarrow> symbol_type \<Rightarrow> int \<Rightarrow> int \<Rightarrow> TRANSLATION_UNIT" where
  "insert_symbol unit symbol_name symbol_type addr val =
     (let index = hash symbol_name; new_symbol = length (symbols unit)
      in unit\<lparr>symbols := symbols unit
                  @ [\<lparr>sym_name = symbol_name, stype = symbol_type, address = addr,
                       sym_value = val\<rparr>],
               symbol_table := (symbol_table unit)
                  [index := new_symbol # symbol_table unit ! index]\<rparr>)"

definition memory_cell_calculator :: "LINE_AST \<Rightarrow> int" where
  "memory_cell_calculator line =
     (if atype line = dir
      then (if dtype (directive line) = string
            then 1 + int (length (takeWhile (\<lambda>x. x \<noteq> 0) (str (directive line))))
            else operand_counter (directive line))
      else let t = enum_inst (itype (instruction line)); ops = operands (instruction line)
           in if t > enum_inst sub_op \<and> t < enum_inst rts \<and> t \<noteq> enum_inst lea
              then (if otype (ops ! 0) = label_with_index then 1 + 2 else 1 + 1)
              else if t \<le> enum_inst sub_op \<or> t = enum_inst lea
              then (if otype (ops ! 0) = reg \<and> otype (ops ! 1) = reg then 1 + 1
                    else 1 + (if otype (ops ! 0) = label_with_index then 2 else 1)
                           + (if otype (ops ! 1) = label_with_index then 2 else 1))
              else 1)"

text \<open>
  The locals of \<open>first_pass\<close> that live across the rounds of its loop, with the
  translation unit.
\<close>

record first_pass_state =
  fp_unit :: TRANSLATION_UNIT
  fp_ic :: int
  fp_dc :: int
  fp_err_flag :: status
  fp_line_num :: int

text \<open>The three statements before each \<open>continue\<close> of the loop.\<close>

definition report_error :: "first_pass_state \<Rightarrow> first_pass_state" where
  "report_error st = st\<lparr>fp_line_num := fp_line_num st + 1, fp_err_flag := SYNTAX_OR_LOGIC_ERROR\<rparr>"

definition set_symbol :: "TRANSLATION_UNIT \<Rightarrow> nat \<Rightarrow> SYMBOL \<Rightarrow> TRANSLATION_UNIT" where
  "set_symbol unit sym_ptr node = unit\<lparr>symbols := (symbols unit)[sym_ptr := node]\<rparr>"

text \<open>
  The treatment of a label in front of a directive or an instruction: \<open>Inl\<close> where the
  loop reports an error and continues with the next line.
\<close>

definition define_label ::
  "LINE_AST \<Rightarrow> MACRO_TABLE \<Rightarrow> first_pass_state \<Rightarrow> first_pass_state + first_pass_state" where
  "define_label line_ast table st =
     (if ast_label line_ast \<noteq> []
      then (if macro_lookup (ast_label line_ast) table \<noteq> None then Inl (report_error st)
            else case symbol_lookup (ast_label line_ast) (fp_unit st) of
              Some sym_find \<Rightarrow>
                (let node = symbols (fp_unit st) ! sym_find
                 in if stype node = entry_sym_without_definition
                    then (if atype line_ast = dir
                          then Inr (st\<lparr>fp_unit := set_symbol (fp_unit st) sym_find
                                     (node\<lparr>stype := data_entry_sym, address := fp_dc st\<rparr>)\<rparr>)
                          else Inr (st\<lparr>fp_unit := set_symbol (fp_unit st) sym_find
                                     (node\<lparr>stype := inst_entry_sym, address := fp_ic st\<rparr>)\<rparr>))
                    else Inl (report_error st))
            | None \<Rightarrow>
                (if atype line_ast = inst
                 then Inr (st\<lparr>fp_unit := insert_symbol (fp_unit st) (ast_label line_ast)
                                             inst_sym (fp_ic st) 0\<rparr>)
                 else Inr (st\<lparr>fp_unit := insert_symbol (fp_unit st) (ast_label line_ast)
                                             data_sym (fp_dc st) 0\<rparr>)))
      else Inr st)"

text \<open>The advance of the counters, and the directives \<open>.entry\<close> and \<open>.extern\<close>.\<close>

definition advance_counters ::
  "LINE_AST \<Rightarrow> MACRO_TABLE \<Rightarrow> first_pass_state \<Rightarrow> first_pass_state + first_pass_state" where
  "advance_counters line_ast table st =
     (if atype line_ast = inst
      then Inr (st\<lparr>fp_ic := fp_ic st + memory_cell_calculator line_ast\<rparr>)
      else if dtype (directive line_ast) = data \<or> dtype (directive line_ast) = string
      then Inr (st\<lparr>fp_dc := fp_dc st + memory_cell_calculator line_ast\<rparr>)
      else if dtype (directive line_ast) = entry \<or> dtype (directive line_ast) = ext
      then (let operand = label_operand (directive line_ast)
            in if macro_lookup operand table \<noteq> None then Inl (report_error st)
               else case symbol_lookup operand (fp_unit st) of
                 Some sym_find \<Rightarrow>
                   (let node = symbols (fp_unit st) ! sym_find
                    in if dtype (directive line_ast) = entry
                       then (if stype node = data_sym
                             then Inr (st\<lparr>fp_unit := set_symbol (fp_unit st) sym_find
                                                        (node\<lparr>stype := data_entry_sym\<rparr>)\<rparr>)
                             else if stype node = inst_sym
                             then Inr (st\<lparr>fp_unit := set_symbol (fp_unit st) sym_find
                                                        (node\<lparr>stype := inst_entry_sym\<rparr>)\<rparr>)
                             else Inl (report_error st))
                       else Inl (report_error st))
               | None \<Rightarrow>
                   (if dtype (directive line_ast) = entry
                    then Inr (st\<lparr>fp_unit := insert_symbol (fp_unit st) operand
                                                entry_sym_without_definition 0 0\<rparr>)
                    else Inr (st\<lparr>fp_unit := insert_symbol (fp_unit st) operand extern_sym 0 0\<rparr>)))
      else Inr st)"

text \<open>
  One round of the loop of \<open>first_pass\<close>: \<open>Inl\<close> is the value of a \<open>return\<close> inside the
  loop, \<open>Inr\<close> the state at the end of the round (after \<open>continue\<close> or after the last
  statement). The existing symbol is looked up under \<open>line_ast.label\<close> in the branch of
  a constant definition, as the source has it.
\<close>

definition first_pass_line ::
  "string \<Rightarrow> MACRO_TABLE \<Rightarrow> first_pass_state \<Rightarrow> status + first_pass_state" where
  "first_pass_line line table st =
     (let line_ast = create_ast_from_text line
      in if atype line_ast = error
         then (if error_detail line_ast = ''memory allocation failed''
               then Inl MEMORY_ALLOCATION_ERROR
               else Inr (report_error st))
         else if atype line_ast = dir \<or> atype line_ast = inst
         then (case define_label line_ast table st of
                 Inl st1 \<Rightarrow> Inr st1
               | Inr st1 \<Rightarrow>
                   (case advance_counters line_ast table st1 of
                      Inl st2 \<Rightarrow> Inr st2
                    | Inr st2 \<Rightarrow> Inr (st2\<lparr>fp_line_num := fp_line_num st2 + 1\<rparr>)))
         else if atype line_ast = constant_def
         then (if macro_lookup (def_constant_name (constant_definition line_ast)) table \<noteq> None
               then Inr (report_error st)
               else case symbol_lookup (ast_label line_ast) (fp_unit st) of
                 Some sym_find \<Rightarrow> Inr (report_error st)
               | None \<Rightarrow>
                   Inr (st\<lparr>fp_unit := insert_symbol (fp_unit st)
                                          (def_constant_name (constant_definition line_ast))
                                          const_sym (fp_line_num st)
                                          (constant_num (constant_definition line_ast)),
                           fp_line_num := fp_line_num st + 1\<rparr>))
         else Inr (st\<lparr>fp_line_num := fp_line_num st + 1\<rparr>))"

fun first_pass_loop ::
  "string list \<Rightarrow> MACRO_TABLE \<Rightarrow> first_pass_state \<Rightarrow> status + first_pass_state" where
  "first_pass_loop [] table st = Inr st"
| "first_pass_loop (line # rest) table st =
     (case first_pass_line line table st of
        Inl fatal \<Rightarrow> Inl fatal
      | Inr st1 \<Rightarrow> first_pass_loop rest table st1)"

definition first_pass_start :: "TRANSLATION_UNIT \<Rightarrow> first_pass_state" where
  "first_pass_start unit =
     \<lparr>fp_unit = unit, fp_ic = 100, fp_dc = 0, fp_err_flag = NO_ERRORS, fp_line_num = 1\<rparr>"

text \<open>
  The loop \<open>while (sym_ptr != NULL)\<close> over one chain after the last line. In the branch
  of an entry without definition the loop continues without moving \<open>sym_ptr\<close>: the
  function is partial, and \<open>None\<close> is the run that never leaves the loop. The state is
  the translation unit and \<open>err_flag\<close>.
\<close>

partial_function (option) scan_chain ::
  "int \<Rightarrow> nat list \<Rightarrow> TRANSLATION_UNIT \<times> status \<Rightarrow> (TRANSLATION_UNIT \<times> status) option" where
  "scan_chain ic_end chain st =
     (case chain of
        [] \<Rightarrow> Some st
      | sym_ptr # next_ptr \<Rightarrow>
          (let unit = fst st; node = symbols unit ! sym_ptr
           in if stype node = entry_sym_without_definition
              then scan_chain ic_end chain (unit, SYNTAX_OR_LOGIC_ERROR)
              else let unit1 = (if stype node = data_entry_sym \<or> stype node = data_sym
                                then set_symbol unit sym_ptr (node\<lparr>address := address node + ic_end\<rparr>)
                                else unit);
                       unit2 = (if stype node = data_entry_sym \<or> stype node = inst_entry_sym
                                then unit1\<lparr>entries_list := sym_ptr # entries_list unit1,
                                           entries_counter := entries_counter unit1 + 1\<rparr>
                                else unit1)
                   in scan_chain ic_end next_ptr (unit2, snd st)))"

declare scan_chain.simps [code]

text \<open>The loop \<open>for (i = 0; i < HASH_TABLE_SIZE; i++)\<close> over the chains.\<close>

fun scan_table ::
  "int \<Rightarrow> nat list list \<Rightarrow> TRANSLATION_UNIT \<times> status \<Rightarrow> (TRANSLATION_UNIT \<times> status) option" where
  "scan_table ic_end [] st = Some st"
| "scan_table ic_end (chain # more_chains) st =
     (case scan_chain ic_end chain st of
        None \<Rightarrow> None
      | Some st1 \<Rightarrow> scan_table ic_end more_chains st1)"

text \<open>
  \<open>first_pass\<close> on the buffers of the \<open>.am\<close> file: the return value and the translation
  unit, or \<open>None\<close> when the function does not return.
\<close>

definition first_pass ::
  "TRANSLATION_UNIT \<Rightarrow> string list \<Rightarrow> MACRO_TABLE \<Rightarrow> (status \<times> TRANSLATION_UNIT) option" where
  "first_pass unit am_lines table =
     (case first_pass_loop am_lines table (first_pass_start unit) of
        Inl fatal \<Rightarrow> Some (fatal, unit)
      | Inr st \<Rightarrow>
          (case scan_table (fp_ic st) (symbol_table (fp_unit st)) (fp_unit st, fp_err_flag st) of
             None \<Rightarrow> None
           | Some (unit1, err_flag) \<Rightarrow>
               Some (if err_flag = NO_ERRORS then NO_ERRORS else SYNTAX_OR_LOGIC_ERROR, unit1)))"

subsection \<open>second\_pass.c\<close>

text \<open>
  \<open>add_ext_address\<close>: a new address goes to the head of the list of the symbol found by
  \<open>ext_search\<close>, a new symbol to the head of the list of symbols.
\<close>

definition ext_search :: "EXT_SYMBOL list \<Rightarrow> string \<Rightarrow> nat option" where
  "ext_search list symbol_name =
     (if \<exists>e \<in> set list. ext_name e = symbol_name
      then Some (length (takeWhile (\<lambda>e. ext_name e \<noteq> symbol_name) list))
      else None)"

definition add_ext_address :: "EXT_SYMBOL list \<Rightarrow> string \<Rightarrow> int \<Rightarrow> EXT_SYMBOL list" where
  "add_ext_address list symbol_name symbol_address =
     (case ext_search list symbol_name of
        Some ext_find \<Rightarrow>
          list[ext_find := (list ! ext_find)
                 \<lparr>ext_address := symbol_address # ext_address (list ! ext_find)\<rparr>]
      | None \<Rightarrow> \<lparr>ext_name = symbol_name, ext_address = [symbol_address]\<rparr> # list)"

text \<open>
  \<open>x << k\<close> on an \<open>int\<close>, as it arrives in a \<open>short\<close> cell: the low 16 bits of
  \<open>x * 2 ^ k\<close>. \<open>or_instruction\<close> is \<open>instruction_array[ic] |= v\<close>.
\<close>

definition shift_left :: "int \<Rightarrow> nat \<Rightarrow> short" where
  "shift_left x k = word_of_int (x * 2 ^ k)"

definition or_instruction :: "TRANSLATION_UNIT \<Rightarrow> short \<Rightarrow> TRANSLATION_UNIT" where
  "or_instruction unit v =
     unit\<lparr>instruction_array := (instruction_array unit)
             (ic unit := instruction_array unit (ic unit) OR v)\<rparr>"

definition or_data :: "TRANSLATION_UNIT \<Rightarrow> short \<Rightarrow> TRANSLATION_UNIT" where
  "or_data unit v =
     unit\<lparr>data_array := (data_array unit) (dc unit := data_array unit (dc unit) OR v)\<rparr>"

definition next_ic :: "TRANSLATION_UNIT \<Rightarrow> TRANSLATION_UNIT" where
  "next_ic unit = unit\<lparr>ic := ic unit + 1\<rparr>"

definition next_dc :: "TRANSLATION_UNIT \<Rightarrow> TRANSLATION_UNIT" where
  "next_dc unit = unit\<lparr>dc := dc unit + 1\<rparr>"

fun addressing_method :: "operand_type \<Rightarrow> int" where
  "addressing_method number = 0"
| "addressing_method constant_op = 0"
| "addressing_method none = 0"
| "addressing_method label = 1"
| "addressing_method label_with_index = 2"
| "addressing_method reg = 3"

text \<open>The first memory word of an instruction.\<close>

definition first_word :: "LINE_AST \<Rightarrow> TRANSLATION_UNIT \<Rightarrow> TRANSLATION_UNIT" where
  "first_word line_ast unit =
     (let ops = operands (instruction line_ast);
          unit1 = or_instruction unit (shift_left (addressing_method (otype (ops ! 0))) 4);
          unit2 = or_instruction unit1 (shift_left (addressing_method (otype (ops ! 1))) 2);
          unit3 = or_instruction unit2 (shift_left (enum_inst (itype (instruction line_ast))) 6)
      in next_ic unit3)"

record second_pass_state =
  sp_unit :: TRANSLATION_UNIT
  sp_err_flag :: status
  sp_line_num :: int

definition logic_error :: "second_pass_state \<Rightarrow> second_pass_state" where
  "logic_error st = st\<lparr>sp_err_flag := SYNTAX_OR_LOGIC_ERROR\<rparr>"

text \<open>
  The word of a label: \<open>01\<close> in bits 0-1 and a new entry in the list of externals for
  an external symbol, \<open>10\<close> and the address otherwise.
\<close>

definition label_word :: "nat \<Rightarrow> TRANSLATION_UNIT \<Rightarrow> TRANSLATION_UNIT" where
  "label_word sym_find unit =
     (let node = symbols unit ! sym_find
      in if stype node = extern_sym
         then next_ic ((or_instruction unit 1)
                \<lparr>external_counter := external_counter unit + 1,
                 ext_list := add_ext_address (ext_list unit) (sym_name node) (ic unit)\<rparr>)
         else next_ic (or_instruction (or_instruction unit 2) (shift_left (address node) 2)))"

text \<open>
  One round of the loop over the operands, for the operand at index \<open>i\<close>, in the case
  that the operands are not both registers.
\<close>

definition encode_operand :: "nat \<Rightarrow> INST_OPERAND \<Rightarrow> second_pass_state \<Rightarrow> second_pass_state" where
  "encode_operand i operand st =
     (let unit = sp_unit st
      in if otype operand = number
         then st\<lparr>sp_unit := next_ic (or_instruction unit (shift_left (num operand) 2))\<rparr>
         else if otype operand = constant_op
         then (case symbol_lookup (constant_name operand) unit of
                 Some sym_find \<Rightarrow>
                   (if address (symbols unit ! sym_find) < sp_line_num st
                    then st\<lparr>sp_unit := next_ic (or_instruction unit
                                  (shift_left (sym_value (symbols unit ! sym_find)) 2))\<rparr>
                    else logic_error st)
               | None \<Rightarrow> logic_error st)
         else if otype operand = reg
         then (if i = SOURCE_OPERAND
               then st\<lparr>sp_unit := next_ic (or_instruction unit (shift_left (num operand) 5))\<rparr>
               else st\<lparr>sp_unit := next_ic (or_instruction unit (shift_left (num operand) 2))\<rparr>)
         else if otype operand = label
         then (case symbol_lookup (op_label operand) unit of
                 Some sym_find \<Rightarrow> st\<lparr>sp_unit := label_word sym_find unit\<rparr>
               | None \<Rightarrow> logic_error st)
         else if otype operand = label_with_index
         then (case symbol_lookup (op_label operand) unit of
                 Some sym_find \<Rightarrow>
                   (let unit1 = label_word sym_find unit
                    in if constant_name operand \<noteq> []
                       then (case symbol_lookup (constant_name operand) unit1 of
                               Some const_find \<Rightarrow>
                                 (if address (symbols unit1 ! const_find) < sp_line_num st
                                  then st\<lparr>sp_unit := next_ic (or_instruction unit1
                                         (shift_left (sym_value (symbols unit1 ! const_find)) 2))\<rparr>
                                  else logic_error (st\<lparr>sp_unit := unit1\<rparr>))
                             | None \<Rightarrow> logic_error (st\<lparr>sp_unit := unit1\<rparr>))
                       else st\<lparr>sp_unit := next_ic (or_instruction unit1
                                                      (shift_left (num operand) 2))\<rparr>)
               | None \<Rightarrow> logic_error st)
         else st)"

text \<open>The memory words of an instruction line.\<close>

definition encode_instruction :: "LINE_AST \<Rightarrow> second_pass_state \<Rightarrow> second_pass_state" where
  "encode_instruction line_ast st =
     (let ops = operands (instruction line_ast);
          st1 = st\<lparr>sp_unit := first_word line_ast (sp_unit st)\<rparr>
      in if otype (ops ! SOURCE_OPERAND) = reg \<and> otype (ops ! DESTINATION_OPERAND) = reg
         then st1\<lparr>sp_unit := next_ic (or_instruction
                  (or_instruction (sp_unit st1) (shift_left (num (ops ! DESTINATION_OPERAND)) 2))
                  (shift_left (num (ops ! SOURCE_OPERAND)) 5))\<rparr>
         else encode_operand 1 (ops ! 1) (encode_operand 0 (ops ! 0) st1))"

text \<open>One item of a \<open>.data\<close> directive.\<close>

definition encode_data_item :: "second_pass_state \<Rightarrow> DATA \<Rightarrow> second_pass_state" where
  "encode_data_item st item =
     (let unit = sp_unit st
      in if data_type item = data_int
         then st\<lparr>sp_unit := next_dc (or_data unit (word_of_int (data_num item)))\<rparr>
         else case symbol_lookup (data_constant_name item) unit of
           Some sym_find \<Rightarrow>
             (if address (symbols unit ! sym_find) < sp_line_num st
              then st\<lparr>sp_unit := next_dc (or_data unit
                                    (word_of_int (sym_value (symbols unit ! sym_find))))\<rparr>
              else logic_error st)
         | None \<Rightarrow> logic_error st)"

definition encode_directive :: "LINE_AST \<Rightarrow> second_pass_state \<Rightarrow> second_pass_state" where
  "encode_directive line_ast st =
     (let d = directive line_ast
      in if dtype d = string
         then st\<lparr>sp_unit := next_dc (foldl (\<lambda>unit x. next_dc (or_data unit (word_of_int x)))
                                         (sp_unit st) (takeWhile (\<lambda>x. x \<noteq> 0) (str d)))\<rparr>
         else if dtype d = data
         then foldl encode_data_item st (take (nat (operand_counter d)) (data_operands d))
         else st)"

text \<open>One round of the loop of \<open>second_pass\<close>; \<open>Inl\<close> is the value of a \<open>return\<close>.\<close>

definition second_pass_line :: "string \<Rightarrow> second_pass_state \<Rightarrow> status + second_pass_state" where
  "second_pass_line line st =
     (let line_ast = create_ast_from_text line
      in if error_detail line_ast = ''memory allocation failed'' then Inl MEMORY_ALLOCATION_ERROR
         else let st1 = (if atype line_ast = inst then encode_instruction line_ast st
                         else if atype line_ast = dir then encode_directive line_ast st
                         else st)
              in Inr (st1\<lparr>sp_line_num := sp_line_num st1 + 1\<rparr>))"

fun second_pass_loop :: "string list \<Rightarrow> second_pass_state \<Rightarrow> status + second_pass_state" where
  "second_pass_loop [] st = Inr st"
| "second_pass_loop (line # rest) st =
     (case second_pass_line line st of
        Inl fatal \<Rightarrow> Inl fatal
      | Inr st1 \<Rightarrow> second_pass_loop rest st1)"

definition second_pass_start :: "TRANSLATION_UNIT \<Rightarrow> second_pass_state" where
  "second_pass_start unit = \<lparr>sp_unit = unit, sp_err_flag = NO_ERRORS, sp_line_num = 1\<rparr>"

text \<open>\<open>second_pass\<close>: the return value and the translation unit as the function leaves it.\<close>

definition second_pass :: "TRANSLATION_UNIT \<Rightarrow> string list \<Rightarrow> status \<times> TRANSLATION_UNIT" where
  "second_pass unit am_lines =
     (case second_pass_loop am_lines (second_pass_start unit) of
        Inl fatal \<Rightarrow> (fatal, unit)
      | Inr st \<Rightarrow>
          (if sp_err_flag st = NO_ERRORS then NO_ERRORS else SYNTAX_OR_LOGIC_ERROR, sp_unit st))"

subsection \<open>back\_end.c\<close>

definition Encrypted_base_four :: "char list" where
  "Encrypted_base_four = [CHR ''*'', CHR ''#'', CHR ''%'', CHR ''!'']"

text \<open>
  The seven characters that \<open>create_object_file\<close> prints for a cell. \<open>cell >> k\<close> works
  on the cell promoted to \<open>int\<close>; the bits below 16 of the result are those of the
  logical shift of the cell.
\<close>

definition encode_word :: "short \<Rightarrow> string" where
  "encode_word cell =
     (let bits_0_1 = cell AND 3;
          bits_2_3 = (drop_bit 2 cell) AND 3;
          bits_4_5 = (drop_bit 4 cell) AND 3;
          bits_6_7 = (drop_bit 6 cell) AND 3;
          bits_8_9 = (drop_bit 8 cell) AND 3;
          bits_10_11 = (drop_bit 10 cell) AND 3;
          bits_12_13 = (drop_bit 12 cell) AND 3
      in [Encrypted_base_four ! unat bits_12_13, Encrypted_base_four ! unat bits_10_11,
          Encrypted_base_four ! unat bits_8_9, Encrypted_base_four ! unat bits_6_7,
          Encrypted_base_four ! unat bits_4_5, Encrypted_base_four ! unat bits_2_3,
          Encrypted_base_four ! unat bits_0_1])"

text \<open>The conversion \<open>%d\<close> of \<open>printf\<close>.\<close>

function decimal :: "nat \<Rightarrow> string" where
  "decimal n = (if n < 10 then [char_of (48 + n)]
                else decimal (n div 10) @ [char_of (48 + n mod 10)])"
  by pat_completeness auto
termination
  by (relation "measure (\<lambda>n. n)") auto

declare decimal.simps [simp del]

definition printf_d :: "int \<Rightarrow> string" where
  "printf_d i = (if i < 0 then CHR ''-'' # decimal (nat (- i)) else decimal (nat i))"

definition object_line :: "int \<Rightarrow> short \<Rightarrow> string" where
  "object_line addr cell = ''0'' @ printf_d addr @ '' '' @ encode_word cell @ [CHR 0x0A]"

definition object_header :: "TRANSLATION_UNIT \<Rightarrow> string" where
  "object_header unit = ''  '' @ printf_d (ic unit) @ '' '' @ printf_d (dc unit) @ [CHR 0x0A]"

text \<open>
  \<open>create_object_file\<close>: the lines written to the \<open>.ob\<close> file and the translation unit
  afterwards (\<open>ic\<close> has grown by 100).
\<close>

definition create_object_file :: "TRANSLATION_UNIT \<Rightarrow> string list \<times> TRANSLATION_UNIT" where
  "create_object_file unit =
     (let unit1 = unit\<lparr>ic := ic unit + 100\<rparr>
      in (object_header unit
          # map (\<lambda>i. object_line (i + 100) (instruction_array unit i)) [0..ic unit - 1]
          @ map (\<lambda>i. object_line (i + ic unit1) (data_array unit i)) [0..dc unit - 1],
          unit1))"

definition create_entries_file :: "TRANSLATION_UNIT \<Rightarrow> string list" where
  "create_entries_file unit =
     map (\<lambda>entry_ptr. sym_name (symbols unit ! entry_ptr) @ [CHR 0x09] @ ''0''
                        @ printf_d (address (symbols unit ! entry_ptr)) @ [CHR 0x0A])
         (entries_list unit)"

definition create_external_file :: "TRANSLATION_UNIT \<Rightarrow> string list" where
  "create_external_file unit =
     concat (map (\<lambda>ext_ptr. map (\<lambda>a. ext_name ext_ptr @ [CHR 0x09] @ ''0''
                                         @ printf_d (a + 100) @ [CHR 0x0A])
                                  (ext_address ext_ptr))
                 (ext_list unit))"

subsection \<open>assembler.c: main, for one file\<close>

text \<open>
  The files that one round of the loop of \<open>main\<close> leaves for the text of a \<open>.as\<close> file;
  \<open>None\<close> when the round does not end.
\<close>

record output_files =
  am_text :: "string option"
  ob_lines :: "string list option"
  ent_lines :: "string list option"
  ext_lines :: "string list option"

definition assemble :: "string \<Rightarrow> output_files option" where
  "assemble as_file =
     (case pre_assembly as_file zero_macro_table of
        None \<Rightarrow> Some \<lparr>am_text = None, ob_lines = None, ent_lines = None, ext_lines = None\<rparr>
      | Some (am, table) \<Rightarrow>
          (let nothing = \<lparr>am_text = Some am, ob_lines = None, ent_lines = None, ext_lines = None\<rparr>
           in case first_pass zero_unit (file_lines MAX_LINE_LEN am) table of
                None \<Rightarrow> None
              | Some (first_pass_error_flag, unit1) \<Rightarrow>
                  (if first_pass_error_flag = NO_ERRORS
                   then (let (second_pass_error_flag, unit2) =
                               second_pass unit1 (file_lines MAX_LINE_LEN am)
                         in if second_pass_error_flag = NO_ERRORS
                            then (let (ob, unit3) = create_object_file unit2
                                  in Some \<lparr>am_text = Some am, ob_lines = Some ob,
                                       ent_lines = (if entries_counter unit3 > 0
                                                    then Some (create_entries_file unit3) else None),
                                       ext_lines = (if external_counter unit3 > 0
                                                    then Some (create_external_file unit3)
                                                    else None)\<rparr>)
                            else Some nothing)
                   else Some nothing)))"

section \<open>Properties\<close>

subsection \<open>The printable base-4 notation of the object file\<close>

text \<open>
  The reading of a group of the object file, as the specification words it: each
  character stands for its position in the alphabet \<open>*\<close>, \<open>#\<close>, \<open>%\<close>, \<open>!\<close>, and the
  characters are base-4 digits, the most significant first. The program has no decoder
  of its own.
\<close>

definition spec_decode_char :: "char \<Rightarrow> short" where
  "spec_decode_char c = (if c = CHR ''*'' then 0 else if c = CHR ''#'' then 1
                         else if c = CHR ''%'' then 2 else 3)"

definition spec_decode_group :: "string \<Rightarrow> short" where
  "spec_decode_group cs = foldl (\<lambda>acc c. acc * 4 + spec_decode_char c) 0 cs"

lemma and_3_take_bit: "(x::short) AND 3 = take_bit 2 x"
proof -
  have "(3::short) = mask 2"
    by (simp add: mask_eq_exp_minus_1)
  then show ?thesis
    by (simp add: take_bit_eq_mask)
qed

lemma and_3_cases: "(x::short) AND 3 = 0 \<or> x AND 3 = 1 \<or> x AND 3 = 2 \<or> x AND 3 = 3"
proof -
  have "unat (x AND 3) \<le> unat (3::short)"
    by (rule word_and_le1 [THEN word_le_nat_alt [THEN iffD1]])
  then have "unat (x AND 3) \<le> 3"
    by simp
  then have "unat (x AND 3) = 0 \<or> unat (x AND 3) = 1 \<or> unat (x AND 3) = 2 \<or> unat (x AND 3) = 3"
    by arith
  then show ?thesis
    by (auto simp: word_unat_eq_iff)
qed

lemma decode_encoded_digit:
  "spec_decode_char (Encrypted_base_four ! unat ((x::short) AND 3)) = take_bit 2 x"
  using and_3_cases [of x] and_3_take_bit [of x]
  by (auto simp: spec_decode_char_def Encrypted_base_four_def)

text \<open>Two more bits in front of a base-4 digit: one step of the positional reading.\<close>

lemma base_four_step:
  assumes m: "m = k + 2"
  shows "take_bit n (drop_bit m w) * 4 + take_bit 2 (drop_bit k w)
         = take_bit (n + 2) (drop_bit k (w::short))"
proof -
  have e: "\<And>i. 2 \<le> i \<Longrightarrow> Suc (Suc (k + i - 2)) = k + i"
    by arith
  have d: "push_bit 2 (take_bit n (drop_bit (k + 2) w)) OR take_bit 2 (drop_bit k w)
           = take_bit (n + 2) (drop_bit k w)"
    apply (rule bit_word_eqI)
    apply (simp add: bit_simps)
    apply (auto simp: e)
    done
  have "push_bit 2 (take_bit n (drop_bit (k + 2) w)) AND take_bit 2 (drop_bit k w) = 0"
    by (rule bit_word_eqI) (auto simp: bit_simps)
  then have "push_bit 2 (take_bit n (drop_bit (k + 2) w)) + take_bit 2 (drop_bit k w)
             = push_bit 2 (take_bit n (drop_bit (k + 2) w)) OR take_bit 2 (drop_bit k w)"
    by (rule disjunctive_add_eq_or)
  then show ?thesis
    using d m by (simp add: push_bit_eq_mult)
qed

lemma decode_encode_take_bit: "spec_decode_group (encode_word w) = take_bit 14 w"
proof -
  have s1: "take_bit 2 (drop_bit 12 w) * 4 + take_bit 2 (drop_bit 10 w) = take_bit 4 (drop_bit 10 w)"
    using base_four_step [of 12 10 2 w] by simp
  have s2: "take_bit 4 (drop_bit 10 w) * 4 + take_bit 2 (drop_bit 8 w) = take_bit 6 (drop_bit 8 w)"
    using base_four_step [of 10 8 4 w] by simp
  have s3: "take_bit 6 (drop_bit 8 w) * 4 + take_bit 2 (drop_bit 6 w) = take_bit 8 (drop_bit 6 w)"
    using base_four_step [of 8 6 6 w] by simp
  have s4: "take_bit 8 (drop_bit 6 w) * 4 + take_bit 2 (drop_bit 4 w) = take_bit 10 (drop_bit 4 w)"
    using base_four_step [of 6 4 8 w] by simp
  have s5: "take_bit 10 (drop_bit 4 w) * 4 + take_bit 2 (drop_bit 2 w) = take_bit 12 (drop_bit 2 w)"
    using base_four_step [of 4 2 10 w] by simp
  have s6: "take_bit 12 (drop_bit 2 w) * 4 + take_bit 2 w = take_bit 14 w"
    using base_four_step [of 2 0 12 w] by simp
  show ?thesis
    by (simp add: spec_decode_group_def encode_word_def Let_def decode_encoded_digit
        s1 s2 s3 s4 s5 s6)
qed

text \<open>
  Claim C9. For every 14-bit word \<open>w\<close> (a cell whose value is below \<open>2 ^ 14\<close>), the seven
  characters that the object emitter prints for \<open>w\<close>, read back through the map
  \<open>* 0, # 1, % 2, ! 3\<close> with the most significant group first, give \<open>w\<close> again.
\<close>

theorem C9_encode_then_decode:
  assumes "w < 2 ^ 14"
  shows "spec_decode_group (encode_word w) = w"
proof -
  have "take_bit 14 w = w"
    using less_mask_eq [of w 14] assms by (simp add: take_bit_eq_mask)
  then show ?thesis
    by (simp add: decode_encode_take_bit)
qed

theorem C9_encode_then_decode_witness:
  "(97::short) < 2 ^ 14 \<and> encode_word 97 = ''***#%*#''
   \<and> spec_decode_group (encode_word 97) = 97"
  using C9_encode_then_decode [of 97]
  by (simp add: encode_word_def Encrypted_base_four_def)

subsection \<open>The length check of the pre-processor\<close>

lemma long_line_buffers:
  "file_lines MAX_LINE_LEN (''; '' @ replicate 98 (CHR ''x'') @ [CHR 0x0A])
   = [''; '' @ replicate 79 (CHR ''x''), replicate 19 (CHR ''x'') @ [CHR 0x0A]]"
  by code_simp

lemma long_line_loop:
  "pre_assembly_loop [''; '' @ replicate 79 (CHR ''x''), replicate 19 (CHR ''x'') @ [CHR 0x0A]]
     \<lparr>mcr_ptr = None, mcr_def_flag = False, macro_table = zero_macro_table, am_file = []\<rparr>
   = Some \<lparr>mcr_ptr = None, mcr_def_flag = False, macro_table = zero_macro_table,
           am_file = ''; '' @ replicate 98 (CHR ''x'') @ [CHR 0x0A]\<rparr>"
  by code_simp

text \<open>
  Claim C4 says that a line without an end-of-line character in the buffer read by the
  pre-processor makes \<open>pre_assembly\<close> fail for the file. The program does otherwise: the
  test \<open>strchr(line, '\n') == NULL && strchr(line, EOF)\<close> also asks for the byte \<open>0xFF\<close> in
  the buffer. For a comment line of 100 characters (\<open>;\<close>, a space, 98 times \<open>x\<close>) followed by
  a newline, the first buffer holds 81 characters and no newline; \<open>pre_assembly\<close> does
  not return NULL, and the \<open>.am\<close> file is the input.
\<close>

theorem C4_long_line_is_accepted:
  "CHR 0x0A \<notin> set (hd (file_lines MAX_LINE_LEN (''; '' @ replicate 98 (CHR ''x'') @ [CHR 0x0A])))
   \<and> length (hd (file_lines MAX_LINE_LEN (''; '' @ replicate 98 (CHR ''x'') @ [CHR 0x0A]))) = 81
   \<and> pre_assembly (''; '' @ replicate 98 (CHR ''x'') @ [CHR 0x0A]) zero_macro_table
       = Some (''; '' @ replicate 98 (CHR ''x'') @ [CHR 0x0A], zero_macro_table)"
  unfolding pre_assembly_def long_line_buffers long_line_loop
  by simp

subsection \<open>The end of the first pass\<close>

lemma stype_update_address:
  "stype ((xs[p := (xs ! p)\<lparr>address := a\<rparr>]) ! q) = stype (xs ! q)"
  by (cases "p < length xs") (auto simp: nth_list_update list_update_beyond)

text \<open>
  Where the loop over a chain returns, no symbol of the chain is an entry without
  definition, and the loop has changed the type of no symbol.
\<close>

lemma scan_chain_returns:
  assumes "scan_chain ic_end chain st = Some y"
  shows "(\<forall>p \<in> set chain. stype (symbols (fst st) ! p) \<noteq> entry_sym_without_definition)
         \<and> (\<forall>q. stype (symbols (fst y) ! q) = stype (symbols (fst st) ! q))"
proof (rule scan_chain.raw_induct
    [where P = "\<lambda>ic_end chain st y.
                  (\<forall>p \<in> set chain. stype (symbols (fst st) ! p) \<noteq> entry_sym_without_definition)
                  \<and> (\<forall>q. stype (symbols (fst y) ! q) = stype (symbols (fst st) ! q))",
     OF _ assms], goal_cases)
  case (1 scan ic_end chain st y)
  show ?case
  proof (cases chain)
    case Nil
    with 1(2) show ?thesis by simp
  next
    case (Cons p rest)
    show ?thesis
    proof (cases "stype (symbols (fst st) ! p) = entry_sym_without_definition")
      case True
      with 1(2) Cons have "scan ic_end chain (fst st, SYNTAX_OR_LOGIC_ERROR) = Some y"
        by (simp add: Let_def)
      from 1(1) [OF this] True Cons show ?thesis by simp
    next
      case False
      with 1(2) Cons obtain u where
        u: "scan ic_end rest (u, snd st) = Some y"
        and t: "\<forall>q. stype (symbols u ! q) = stype (symbols (fst st) ! q)"
        by (auto simp: Let_def set_symbol_def stype_update_address split: if_splits)
      from 1(1) [OF u] t False Cons show ?thesis by simp
    qed
  qed
qed

lemma scan_table_diverges:
  assumes "chain \<in> set table_chains" "p \<in> set chain"
    "stype (symbols (fst st) ! p) = entry_sym_without_definition"
  shows "scan_table ic_end table_chains st = None"
  using assms
proof (induction table_chains arbitrary: st)
  case Nil
  then show ?case by simp
next
  case (Cons c cs)
  show ?case
  proof (cases "scan_chain ic_end c st")
    case None
    then show ?thesis by simp
  next
    case (Some st1)
    note r = scan_chain_returns [OF Some]
    with Cons.prems have "chain \<noteq> c" by auto
    with Cons.prems have "chain \<in> set cs" by simp
    moreover have "stype (symbols (fst st1) ! p) = entry_sym_without_definition"
      using r Cons.prems by simp
    ultimately have "scan_table ic_end cs st1 = None"
      using Cons.IH Cons.prems by blast
    with Some show ?thesis by simp
  qed
qed

text \<open>
  If a symbol of the table is still an entry without definition after the last line,
  \<open>first_pass\<close> does not return.
\<close>

lemma first_pass_never_returns:
  assumes "first_pass_loop am_lines table (first_pass_start unit) = Inr st"
    and "chain \<in> set (symbol_table (fp_unit st))" and "p \<in> set chain"
    and "stype (symbols (fp_unit st) ! p) = entry_sym_without_definition"
  shows "first_pass unit am_lines table = None"
  using assms scan_table_diverges [of chain "symbol_table (fp_unit st)" p
      "(fp_unit st, fp_err_flag st)" "fp_ic st"]
  by (simp add: first_pass_def)

lemma entry_pending_after_loop:
  "(case first_pass_loop (file_lines MAX_LINE_LEN (''.entry X'' @ [CHR 0x0A])) zero_macro_table
           (first_pass_start zero_unit) of
      Inl fatal \<Rightarrow> False
    | Inr st \<Rightarrow>
        list_ex (list_ex (\<lambda>p. stype (symbols (fp_unit st) ! p) = entry_sym_without_definition))
          (symbol_table (fp_unit st)))"
  by code_simp

text \<open>
  Claim C5 says that \<open>first_pass\<close> terminates on every finite input and returns the
  non-fatal error code when a symbol is left as an entry without definition. The
  program does otherwise: in that branch the loop over the chain executes \<open>continue\<close>
  before \<open>sym_ptr = sym_ptr->next\<close>, so it stays at the same symbol for ever. For the
  file whose only line is \<open>.entry X\<close>, \<open>first_pass\<close> does not return.
\<close>

theorem C5_entry_without_definition_never_returns:
  "first_pass zero_unit (file_lines MAX_LINE_LEN (''.entry X'' @ [CHR 0x0A])) zero_macro_table = None"
proof -
  define r where "r = first_pass_loop (file_lines MAX_LINE_LEN (''.entry X'' @ [CHR 0x0A]))
                        zero_macro_table (first_pass_start zero_unit)"
  have "case r of
          Inl fatal \<Rightarrow> False
        | Inr st \<Rightarrow>
            list_ex (list_ex (\<lambda>p. stype (symbols (fp_unit st) ! p) = entry_sym_without_definition))
              (symbol_table (fp_unit st))"
    unfolding r_def by (rule entry_pending_after_loop)
  then obtain st chain p where "r = Inr st" "chain \<in> set (symbol_table (fp_unit st))"
    "p \<in> set chain" "stype (symbols (fp_unit st) ! p) = entry_sym_without_definition"
    by (auto simp: list_ex_iff split: sum.splits)
  then show ?thesis
    unfolding r_def by (rule first_pass_never_returns)
qed

subsection \<open>Constant definitions in the first pass\<close>

text \<open>
  Claim C6 says that a \<open>.define\<close> line whose name is already in the symbol table is
  reported as an error and inserts nothing. The program does otherwise: in the branch
  of a constant definition it looks the existing symbol up under \<open>line_ast.label\<close>,
  which is empty on such a line, and not under the name of the constant. For the file
  with the lines \<open>.define K = 1\<close> and \<open>.define K = 2\<close>, \<open>first_pass\<close> returns \<open>NO_ERRORS\<close>
  and the table holds two symbols named \<open>K\<close>.
\<close>

theorem C6_constant_defined_twice:
  "map_option (\<lambda>(flag, unit). (flag, symbols unit, symbol_table unit ! hash ''K''))
     (first_pass zero_unit
        (file_lines MAX_LINE_LEN (''.define K = 1'' @ [CHR 0x0A] @ ''.define K = 2'' @ [CHR 0x0A]))
        zero_macro_table)
   = Some (NO_ERRORS,
           [\<lparr>sym_name = ''K'', stype = const_sym, address = 1, sym_value = 1\<rparr>,
            \<lparr>sym_name = ''K'', stype = const_sym, address = 2, sym_value = 2\<rparr>],
           [1, 0])"
  by code_simp

subsection \<open>What the second pass leaves unchanged\<close>

definition symbol_frame ::
  "TRANSLATION_UNIT \<Rightarrow> SYMBOL list \<times> nat list list \<times> nat list \<times> int" where
  "symbol_frame unit = (symbols unit, symbol_table unit, entries_list unit, entries_counter unit)"

lemma frame_primitives [simp]:
  "symbol_frame (or_instruction unit v) = symbol_frame unit"
  "symbol_frame (or_data unit v) = symbol_frame unit"
  "symbol_frame (next_ic unit) = symbol_frame unit"
  "symbol_frame (next_dc unit) = symbol_frame unit"
  by (simp_all add: symbol_frame_def or_instruction_def or_data_def next_ic_def next_dc_def)

lemma frame_first_word [simp]: "symbol_frame (first_word line_ast unit) = symbol_frame unit"
  by (simp add: first_word_def Let_def)

lemma frame_label_word [simp]: "symbol_frame (label_word sym_find unit) = symbol_frame unit"
proof -
  have "symbol_frame (u\<lparr>external_counter := c, ext_list := l\<rparr>) = symbol_frame u" for u c l
    by (simp add: symbol_frame_def)
  then show ?thesis
    by (simp add: label_word_def Let_def)
qed

lemma frame_encode_operand [simp]:
  "symbol_frame (sp_unit (encode_operand i operand st)) = symbol_frame (sp_unit st)"
  by (simp add: encode_operand_def logic_error_def Let_def split: option.splits)

lemma frame_encode_instruction [simp]:
  "symbol_frame (sp_unit (encode_instruction line_ast st)) = symbol_frame (sp_unit st)"
  by (simp add: encode_instruction_def Let_def)

lemma frame_encode_data_item [simp]:
  "symbol_frame (sp_unit (encode_data_item st item)) = symbol_frame (sp_unit st)"
  by (simp add: encode_data_item_def logic_error_def Let_def split: option.splits)

lemma frame_data_items [simp]:
  "symbol_frame (sp_unit (foldl encode_data_item st items)) = symbol_frame (sp_unit st)"
  by (induction items arbitrary: st) simp_all

lemma frame_string_chars [simp]:
  "symbol_frame (foldl (\<lambda>unit x. next_dc (or_data unit (word_of_int x))) unit xs)
   = symbol_frame unit"
  by (induction xs arbitrary: unit) simp_all

lemma frame_encode_directive [simp]:
  "symbol_frame (sp_unit (encode_directive line_ast st)) = symbol_frame (sp_unit st)"
  by (simp add: encode_directive_def Let_def)

lemma frame_second_pass_line:
  "second_pass_line line st = Inr st1 \<Longrightarrow> symbol_frame (sp_unit st1) = symbol_frame (sp_unit st)"
  by (auto simp: second_pass_line_def Let_def split: if_splits)

lemma frame_second_pass_loop:
  "second_pass_loop am_lines st = Inr st1
   \<Longrightarrow> symbol_frame (sp_unit st1) = symbol_frame (sp_unit st)"
proof (induction am_lines arbitrary: st)
  case Nil
  then show ?case by simp
next
  case (Cons line rest)
  then show ?case
    by (auto split: sum.splits dest: frame_second_pass_line)
qed

text \<open>
  Claim C10. \<open>second_pass\<close> leaves the symbol table and the list of entries as it finds
  them: every node of the table keeps its name, type, address and value, the chains
  keep their order, and \<open>entries_list\<close> and \<open>entries_counter\<close> are unchanged. (It writes the
  two images, \<open>ic\<close>, \<open>dc\<close>, \<open>ext_list\<close> and \<open>external_counter\<close> only.)
\<close>

theorem C10_second_pass_keeps_symbols_and_entries:
  "symbols (snd (second_pass unit am_lines)) = symbols unit
   \<and> symbol_table (snd (second_pass unit am_lines)) = symbol_table unit
   \<and> entries_list (snd (second_pass unit am_lines)) = entries_list unit
   \<and> entries_counter (snd (second_pass unit am_lines)) = entries_counter unit"
proof -
  have "symbol_frame (snd (second_pass unit am_lines)) = symbol_frame unit"
    using frame_second_pass_loop [of am_lines "second_pass_start unit"]
    by (auto simp: second_pass_def second_pass_start_def split: sum.splits)
  then show ?thesis
    by (simp add: symbol_frame_def)
qed

subsection \<open>The field A/R/E of the instruction words\<close>

text \<open>
  The invariant of the second pass on the instruction image, relative to the value
  \<open>ic0\<close> of \<open>ic\<close> at the start: the cells above \<open>ic\<close> are zero, no cell from \<open>ic0\<close> on other
  than the cell at \<open>ic\<close> has \<open>11\<close> in bits 0-1, and the cell at \<open>ic\<close> has \<open>s\<close> there.
\<close>

definition word_inv :: "int \<Rightarrow> TRANSLATION_UNIT \<Rightarrow> short \<Rightarrow> bool" where
  "word_inv ic0 unit s =
     (ic0 \<le> ic unit
      \<and> (\<forall>i. ic unit < i \<longrightarrow> instruction_array unit i = 0)
      \<and> (\<forall>i. ic0 \<le> i \<and> i \<noteq> ic unit \<longrightarrow> instruction_array unit i AND 3 \<noteq> 3)
      \<and> instruction_array unit (ic unit) AND 3 = s)"

lemma field_values: "(0::short) \<noteq> 3" "(1::short) \<noteq> 3" "(2::short) \<noteq> 3"
  by (simp_all add: word_unat_eq_iff)

lemma shift_left_low_bits: "2 \<le> k \<Longrightarrow> shift_left x k AND 3 = 0"
proof -
  assume k: "2 \<le> k"
  have s: "shift_left x k = push_bit k (word_of_int x)"
    by (simp add: shift_left_def push_bit_eq_mult)
  have m: "(3::short) = mask 2"
    by (simp add: mask_eq_exp_minus_1)
  have "push_bit k (word_of_int x :: short) AND mask 2 = 0"
    using k by (auto intro!: bit_word_eqI simp: bit_simps)
  then show ?thesis
    by (simp only: s m)
qed

lemma or_shift_low_bits: "2 \<le> k \<Longrightarrow> (a OR shift_left x k) AND 3 = a AND 3"
  by (simp add: bit.conj_disj_distrib2 shift_left_low_bits)

lemma inv_shift:
  "word_inv ic0 unit s \<Longrightarrow> 2 \<le> k \<Longrightarrow> word_inv ic0 (or_instruction unit (shift_left x k)) s"
  by (simp add: word_inv_def or_instruction_def or_shift_low_bits)

lemma inv_or_1: "word_inv ic0 unit 0 \<Longrightarrow> word_inv ic0 (or_instruction unit 1) 1"
  by (simp add: word_inv_def or_instruction_def bit.conj_disj_distrib2)

lemma inv_or_2: "word_inv ic0 unit 0 \<Longrightarrow> word_inv ic0 (or_instruction unit 2) 2"
  by (simp add: word_inv_def or_instruction_def bit.conj_disj_distrib2)

lemma inv_next: "word_inv ic0 unit s \<Longrightarrow> s \<noteq> 3 \<Longrightarrow> word_inv ic0 (next_ic unit) 0"
  by (auto simp: word_inv_def next_ic_def)

lemma inv_externals [simp]:
  "word_inv ic0 (unit\<lparr>external_counter := c, ext_list := l\<rparr>) s = word_inv ic0 unit s"
  by (simp add: word_inv_def)

lemma inv_data [simp]:
  "word_inv ic0 (or_data unit v) s = word_inv ic0 unit s"
  "word_inv ic0 (next_dc unit) s = word_inv ic0 unit s"
  by (simp_all add: word_inv_def or_data_def next_dc_def)

lemma inv_number_word:
  assumes "word_inv ic0 unit 0" "2 \<le> k"
  shows "word_inv ic0 (next_ic (or_instruction unit (shift_left x k))) 0"
proof -
  have "word_inv ic0 (or_instruction unit (shift_left x k)) 0"
    using assms by (rule inv_shift)
  then show ?thesis
    by (rule inv_next) (rule field_values)
qed

lemma inv_label_word: "word_inv ic0 unit 0 \<Longrightarrow> word_inv ic0 (label_word sym_find unit) 0"
proof -
  assume a: "word_inv ic0 unit 0"
  have "word_inv ic0 (next_ic ((or_instruction unit 1)\<lparr>external_counter := c, ext_list := l\<rparr>)) 0"
    for c l
    by (rule inv_next [where s = 1]) (simp_all add: inv_or_1 a field_values)
  moreover have "word_inv ic0 (next_ic (or_instruction (or_instruction unit 2) (shift_left x 2))) 0"
    for x
    by (rule inv_next [where s = 2]) (simp_all add: inv_shift inv_or_2 a field_values)
  ultimately show ?thesis
    by (simp add: label_word_def Let_def)
qed

lemma inv_first_word: "word_inv ic0 unit 0 \<Longrightarrow> word_inv ic0 (first_word line_ast unit) 0"
  by (simp add: first_word_def Let_def inv_next [where s = 0] inv_shift field_values)

lemma inv_encode_operand:
  "word_inv ic0 (sp_unit st) 0 \<Longrightarrow> word_inv ic0 (sp_unit (encode_operand i operand st)) 0"
  by (simp add: encode_operand_def logic_error_def Let_def inv_number_word inv_label_word
      split: option.splits)

lemma inv_encode_instruction:
  "word_inv ic0 (sp_unit st) 0 \<Longrightarrow> word_inv ic0 (sp_unit (encode_instruction line_ast st)) 0"
  by (simp add: encode_instruction_def Let_def inv_first_word inv_encode_operand
      inv_next [where s = 0] inv_shift field_values)

lemma inv_encode_data_item:
  "word_inv ic0 (sp_unit (encode_data_item st item)) s = word_inv ic0 (sp_unit st) s"
  by (simp add: encode_data_item_def logic_error_def Let_def split: option.splits)

lemma inv_data_items:
  "word_inv ic0 (sp_unit (foldl encode_data_item st items)) s = word_inv ic0 (sp_unit st) s"
  by (induction items arbitrary: st) (simp_all add: inv_encode_data_item)

lemma inv_string_chars:
  "word_inv ic0 (foldl (\<lambda>unit x. next_dc (or_data unit (word_of_int x))) unit xs) s
   = word_inv ic0 unit s"
  by (induction xs arbitrary: unit) simp_all

lemma inv_encode_directive:
  "word_inv ic0 (sp_unit (encode_directive line_ast st)) s = word_inv ic0 (sp_unit st) s"
  by (simp add: encode_directive_def Let_def inv_data_items inv_string_chars)

lemma inv_second_pass_line:
  "second_pass_line line st = Inr st1 \<Longrightarrow> word_inv ic0 (sp_unit st) 0
   \<Longrightarrow> word_inv ic0 (sp_unit st1) 0"
  by (auto simp: second_pass_line_def Let_def inv_encode_instruction inv_encode_directive
      split: if_splits)

lemma inv_second_pass_loop:
  "second_pass_loop am_lines st = Inr st1 \<Longrightarrow> word_inv ic0 (sp_unit st) 0
   \<Longrightarrow> word_inv ic0 (sp_unit st1) 0"
proof (induction am_lines arbitrary: st)
  case Nil
  then show ?case by simp
next
  case (Cons line rest)
  then show ?case
    by (auto split: sum.splits dest: inv_second_pass_line)
qed

text \<open>The cells of the instruction image from \<open>ic\<close> upwards are zero.\<close>

definition cleared_from_ic :: "TRANSLATION_UNIT \<Rightarrow> bool" where
  "cleared_from_ic unit = (\<forall>i. ic unit \<le> i \<longrightarrow> instruction_array unit i = 0)"

text \<open>
  Claim C8. Every word that the second pass writes into the instruction image has
  \<open>00\<close>, \<open>01\<close> or \<open>10\<close> in bits 0-1, never \<open>11\<close>. The second pass writes with \<open>|=\<close> into
  the cells from \<open>ic\<close> upwards; \<open>main\<close> hands it an image that \<open>memset\<close> has cleared, and the
  theorem asks for that much: the cells from \<open>ic\<close> upwards are zero at the start.
\<close>

theorem C8_no_word_with_both_low_bits:
  assumes "cleared_from_ic unit"
  shows "\<forall>i. ic unit \<le> i \<longrightarrow> instruction_array (snd (second_pass unit am_lines)) i AND 3 \<noteq> 3"
proof -
  have start: "word_inv (ic unit) unit 0"
    using assms by (simp add: word_inv_def cleared_from_ic_def)
  have "word_inv (ic unit) (snd (second_pass unit am_lines)) 0"
    using inv_second_pass_loop [of am_lines "second_pass_start unit" _ "ic unit"] start
    by (auto simp: second_pass_def second_pass_start_def split: sum.splits)
  then show ?thesis
    by (auto simp: word_inv_def)
qed


theorem C8_no_word_with_both_low_bits_witness:
  "cleared_from_ic zero_unit
   \<and> instruction_array (snd (second_pass zero_unit [''mov #-1, r2'' @ [CHR 0x0A]])) 1 AND 3 \<noteq> 3"
proof -
  have h: "cleared_from_ic zero_unit"
    by (simp add: cleared_from_ic_def zero_unit_def)
  have "ic zero_unit \<le> 1"
    by (simp add: zero_unit_def)
  with C8_no_word_with_both_low_bits [OF h, of "[''mov #-1, r2'' @ [CHR 0x0A]]"] h
  show ?thesis
    by blast
qed

subsection \<open>The operand of jmp, bne and jsr\<close>

text \<open>
  Claim C7 says that \<open>jmp\<close>, \<open>bne\<close> and \<open>jsr\<close> take a plain label only and that a register
  as destination is an error. The parser accepts the register: the only test in its
  register branch is for the source operand of \<open>lea\<close>. The line \<open>jmp r1\<close> is an
  instruction with a register as destination operand and no error.
\<close>

theorem C7_jmp_register_accepted:
  "atype (create_ast_from_text (''jmp r1'' @ [CHR 0x0A])) = inst
   \<and> error_detail (create_ast_from_text (''jmp r1'' @ [CHR 0x0A])) \<noteq> inappropriate
   \<and> otype (operands (instruction (create_ast_from_text (''jmp r1'' @ [CHR 0x0A]))) ! 1) = reg"
  by code_simp

lemma is_label_not_memory [simp]: "is_label word position \<noteq> MEMORY_ALLOCATION_ERROR"
  by (simp add: is_label_def Let_def)

lemma is_label_cases:
  "is_label word position = NO_ERRORS \<or> is_label word position = SYNTAX_OR_LOGIC_ERROR"
  by (simp add: is_label_def Let_def)

lemma is_label_with_index_not_memory [simp]:
  "fst (is_label_with_index word operand) \<noteq> MEMORY_ALLOCATION_ERROR"
  using is_label_cases
    [of "takeWhile (\<lambda>c. c \<noteq> CHR '']'') (tl (dropWhile (\<lambda>c. c \<noteq> CHR ''['') word))"
        operand_label]
  by (auto simp: is_label_with_index_def Let_def)

lemma check_line_loop_keeps:
  "check_line_loop word line word_cnt ast = (t, rest, ast1) \<Longrightarrow> t \<noteq> error
   \<Longrightarrow> error_detail ast1 = error_detail ast
       \<and> operands (instruction ast1) = operands (instruction ast)
       \<and> data_operands (directive ast1) = data_operands (directive ast)
       \<and> operand_counter (directive ast1) = operand_counter (directive ast)
       \<and> str (directive ast1) = str (directive ast)"
proof (induction word line word_cnt ast rule: check_line_loop.induct)
  case (1 word line word_cnt ast)
  show ?case
  proof (cases word)
    case None
    with "1.prems" show ?thesis
      by (simp add: check_line_loop.simps [of None] split: if_splits)
  next
    case (Some w)
    show ?thesis
    proof (cases "is_label w pre_line_label = NO_ERRORS \<and> word_cnt = 0")
      case True
      with Some "1.prems" have
        "check_line_loop (fst (get_word line)) (snd (get_word line)) 1
           (ast\<lparr>ast_label := take (length w - 1) w\<rparr>) = (t, rest, ast1)"
        by (simp add: check_line_loop.simps [of "Some w"])
      moreover from True have "is_label w pre_line_label = NO_ERRORS" "word_cnt + 1 = 1"
        by simp_all
      ultimately show ?thesis
        using "1.IH" [OF Some refl refl] "1.prems"(2) by simp
    next
      case False
      with Some "1.prems" show ?thesis
        by (auto simp: check_line_loop.simps [of "Some w"] Let_def set_error_def split: if_splits)
    qed
  qed
qed

lemma check_line_type_keeps:
  assumes "check_line_type line zero_ast = (t, rest, ast)" "t \<noteq> error"
  shows "error_detail ast = [] \<and> operands (instruction ast) = [zero_operand, zero_operand]
         \<and> data_operands (directive ast) = [] \<and> operand_counter (directive ast) = 0
         \<and> str (directive ast) = []"
proof (cases "char_at line 0 = CHR '';''")
  case True
  with assms show ?thesis
    by (auto simp: check_line_type_def zero_ast_def)
next
  case False
  with assms have "check_line_loop (fst (get_word line)) (snd (get_word line)) 0 zero_ast
                   = (t, rest, ast)"
    by (simp add: check_line_type_def)
  from check_line_loop_keeps [OF this assms(2)] show ?thesis
    by (simp add: zero_ast_def)
qed

lemma classify_jump_operand:
  assumes "itype (instruction ast) = jmp \<or> itype (instruction ast) = bne
           \<or> itype (instruction ast) = jsr"
    and "is_label word operand_label = SYNTAX_OR_LOGIC_ERROR"
    and "is_register word = - 1"
  shows "\<exists>ast1. classify_operand word 1 ast = Inl ast1 \<and> error_detail ast1 = inappropriate"
proof (cases "char_at word 0 = CHR ''#''")
  case True
  with assms(1) show ?thesis
    by (auto simp: classify_operand_def Let_def set_error_def)
next
  case False
  show ?thesis
  proof (cases "fst (is_label_with_index word (operands (instruction ast) ! 1))
                = SYNTAX_OR_LOGIC_ERROR")
    case True
    with False assms(2,3) show ?thesis
      by (simp add: classify_operand_def Let_def set_error_def)
  next
    case lwi: False
    with False assms(1,2) show ?thesis
      by (auto simp: classify_operand_def Let_def set_error_def)
  qed
qed

text \<open>
  Claim C7, as amended. For a line whose mnemonic is \<open>jmp\<close>, \<open>bne\<close> or \<open>jsr\<close> the parser
  returns the error \<open>the operation type received an operand of an inappropriate type\<close>
  whenever the destination operand is neither a plain label nor a register: in
  particular for an immediate and for a label with index. (A register is accepted, see
  the counterexample above.) The hypotheses read: the first words of the line make it
  an instruction with one of the three mnemonics, the operand is the next word and no
  comma stands before it, and the word is neither a label nor a register name.
\<close>

theorem C7_jump_operand_rejected:
  assumes line_type: "check_line_type line zero_ast = (inst, rest, ast)"
    and mnemonic: "itype (instruction ast) = jmp \<or> itype (instruction ast) = bne
                   \<or> itype (instruction ast) = jsr"
    and no_comma: "char_at (dropWhile isspace rest) 0 \<noteq> CHR '',''"
    and operand: "fst (get_word (dropWhile isspace rest)) = Some word"
    and not_label: "is_label word operand_label \<noteq> NO_ERRORS"
    and not_register: "is_register word = - 1"
  shows "atype (create_ast_from_text line) = error
         \<and> error_detail (create_ast_from_text line) = inappropriate"
proof -
  define ast0 where "ast0 = ast\<lparr>atype := inst\<rparr>"
  have detail: "error_detail ast0 = []"
    using check_line_type_keeps [OF line_type] by (simp add: ast0_def)
  have t: "itype (instruction ast0) = jmp \<or> itype (instruction ast0) = bne
           \<or> itype (instruction ast0) = jsr"
    using mnemonic by (simp add: ast0_def)
  have syn: "is_label word operand_label = SYNTAX_OR_LOGIC_ERROR"
    using not_label is_label_cases [of word operand_label] by simp
  obtain ast1 where c: "classify_operand word 1 ast0 = Inl ast1"
    and d: "error_detail ast1 = inappropriate"
    using classify_jump_operand [OF t syn not_register] by blast
  have "check_inst_operand (dropWhile isspace rest) ast0
        = (error_flag, snd (get_word (dropWhile isspace rest)), ast1)"
    using t operand c
    by (auto simp: check_inst_operand_def Let_def check_inst_loop.simps [of "Suc 0"])
  then have "check_operand rest ast0
             = (error_flag, snd (get_word (dropWhile isspace rest)), ast1)"
    using no_comma by (simp add: check_operand_def Let_def ast0_def)
  then show ?thesis
    using line_type detail d by (simp add: create_ast_from_text_def Let_def ast0_def)
qed

lemma jsr_indexed_line:
  "check_line_type (''jsr  L[3]'' @ [CHR 0x0A]) zero_ast
   = (inst, ''  L[3]'' @ [CHR 0x0A],
      zero_ast\<lparr>instruction := \<lparr>itype = jsr, operands = [zero_operand, zero_operand]\<rparr>\<rparr>)"
  by code_simp

lemma jsr_indexed_word:
  "fst (get_word (dropWhile isspace (''  L[3]'' @ [CHR 0x0A]))) = Some ''L[3]''
   \<and> char_at (dropWhile isspace (''  L[3]'' @ [CHR 0x0A])) 0 \<noteq> CHR '',''
   \<and> is_label ''L[3]'' operand_label \<noteq> NO_ERRORS \<and> is_register ''L[3]'' = - 1"
  by code_simp

theorem C7_jump_operand_rejected_witness:
  "is_label ''L[3]'' operand_label \<noteq> NO_ERRORS \<and> is_register ''L[3]'' = - 1
   \<and> atype (create_ast_from_text (''jsr  L[3]'' @ [CHR 0x0A])) = error
   \<and> error_detail (create_ast_from_text (''jsr  L[3]'' @ [CHR 0x0A])) = inappropriate"
  using C7_jump_operand_rejected [OF jsr_indexed_line, of "''L[3]''"] jsr_indexed_word
  by simp

subsection \<open>Lines inside a macro definition\<close>

text \<open>A definition of a macro that calls another macro in its body.\<close>

definition nested_call_file :: string where
  "nested_call_file =
     ''mcr A'' @ [CHR 0x0A] @ ''hlt'' @ [CHR 0x0A] @ ''endmcr'' @ [CHR 0x0A]
     @ ''mcr B'' @ [CHR 0x0A] @ ''A'' @ [CHR 0x0A] @ ''rts'' @ [CHR 0x0A] @ ''endmcr'' @ [CHR 0x0A]
     @ ''B'' @ [CHR 0x0A]"

text \<open>
  Claim C3 says that every line of a macro body, also one that begins with the name of
  a defined macro, is stored in the body, that nothing is written to the \<open>.am\<close> file
  while a body is recorded, and that the stored lines are written when the enclosing
  macro is called. The program does otherwise: \<open>pre_assembly\<close> takes the branch
  \<open>macro_call\<close> also inside a definition; there it writes the body of the called macro to
  the \<open>.am\<close> file and sets \<open>mcr_ptr\<close>, the pointer to the macro that is being defined, to
  \<open>NULL\<close>. In the file above the line \<open>A\<close> inside the definition of \<open>B\<close> writes \<open>hlt\<close> to the
  \<open>.am\<close> file, the next body line \<open>rts\<close> is written to the \<open>.am\<close> file and not stored, \<open>B\<close>
  is left with an empty body, and the call of \<open>B\<close> in the last line writes nothing.
\<close>

theorem C3_call_inside_definition:
  "map_option (\<lambda>(am, table). (am, macros table)) (pre_assembly nested_call_file zero_macro_table)
   = Some (''hlt'' @ [CHR 0x0A] @ ''rts'' @ [CHR 0x0A],
           [\<lparr>macro_name = ''A'', content = [''hlt'' @ [CHR 0x0A]]\<rparr>,
            \<lparr>macro_name = ''B'', content = []\<rparr>])"
  by code_simp

subsection \<open>What the first pass leaves unchanged\<close>

text \<open>
  \<open>first_pass\<close> counts in the locals \<open>ic\<close> and \<open>dc\<close>; it writes neither the two images nor
  the fields \<open>ic\<close> and \<open>dc\<close> of the translation unit.
\<close>

definition image_frame ::
  "TRANSLATION_UNIT \<Rightarrow> (int \<Rightarrow> short) \<times> (int \<Rightarrow> short) \<times> int \<times> int" where
  "image_frame unit = (instruction_array unit, data_array unit, ic unit, dc unit)"

lemma images_symbols [simp]:
  "image_frame (insert_symbol unit symbol_name kind addr val) = image_frame unit"
  "image_frame (set_symbol unit sym_ptr node) = image_frame unit"
  by (simp_all add: image_frame_def insert_symbol_def set_symbol_def Let_def)

lemma images_define_label:
  "define_label line_ast table st = Inr st1 \<Longrightarrow> image_frame (fp_unit st1) = image_frame (fp_unit st)"
  "define_label line_ast table st = Inl st1 \<Longrightarrow> image_frame (fp_unit st1) = image_frame (fp_unit st)"
  by (auto simp: define_label_def report_error_def Let_def split: if_splits option.splits)

lemma images_advance_counters:
  "advance_counters line_ast table st = Inr st1 \<Longrightarrow> image_frame (fp_unit st1) = image_frame (fp_unit st)"
  "advance_counters line_ast table st = Inl st1 \<Longrightarrow> image_frame (fp_unit st1) = image_frame (fp_unit st)"
  by (auto simp: advance_counters_def report_error_def Let_def split: if_splits option.splits)

lemma images_first_pass_line:
  "first_pass_line line table st = Inr st1 \<Longrightarrow> image_frame (fp_unit st1) = image_frame (fp_unit st)"
  unfolding first_pass_line_def Let_def
  by (auto simp: report_error_def split: if_splits option.splits sum.splits)
    (metis images_define_label images_advance_counters)+

lemma images_first_pass_loop:
  "first_pass_loop am_lines table st = Inr st1
   \<Longrightarrow> image_frame (fp_unit st1) = image_frame (fp_unit st)"
proof (induction am_lines arbitrary: st)
  case Nil
  then show ?case by simp
next
  case (Cons line rest)
  then show ?case
    by (auto split: sum.splits dest: images_first_pass_line)
qed

lemma images_scan_chain:
  assumes "scan_chain ic_end chain st = Some y"
  shows "image_frame (fst y) = image_frame (fst st)"
proof (rule scan_chain.raw_induct
    [where P = "\<lambda>ic_end chain st y. image_frame (fst y) = image_frame (fst st)",
     OF _ assms], goal_cases)
  case (1 scan ic_end chain st y)
  show ?case
  proof (cases chain)
    case Nil
    with 1(2) show ?thesis by simp
  next
    case (Cons p rest)
    show ?thesis
    proof (cases "stype (symbols (fst st) ! p) = entry_sym_without_definition")
      case True
      with 1(2) Cons have "scan ic_end chain (fst st, SYNTAX_OR_LOGIC_ERROR) = Some y"
        by (simp add: Let_def)
      from 1(1) [OF this] show ?thesis by simp
    next
      case False
      have e: "image_frame (u\<lparr>entries_list := l, entries_counter := c\<rparr>) = image_frame u" for u l c
        by (simp add: image_frame_def)
      from False 1(2) Cons obtain u where
        u: "scan ic_end rest (u, snd st) = Some y"
        and t: "image_frame u = image_frame (fst st)"
        by (auto simp: Let_def e split: if_splits)
      from 1(1) [OF u] t show ?thesis by simp
    qed
  qed
qed

lemma images_scan_table:
  "scan_table ic_end table_chains st = Some y \<Longrightarrow> image_frame (fst y) = image_frame (fst st)"
proof (induction table_chains arbitrary: st)
  case Nil
  then show ?case by simp
next
  case (Cons c cs)
  then show ?case
    by (auto split: option.splits dest: images_scan_chain)
qed

lemma images_first_pass:
  assumes "first_pass unit am_lines table = Some (flag, unit1)"
  shows "image_frame unit1 = image_frame unit"
proof (cases "first_pass_loop am_lines table (first_pass_start unit)")
  case (Inl fatal)
  with assms show ?thesis by (simp add: first_pass_def)
next
  case (Inr st)
  from images_first_pass_loop [OF Inr] have "image_frame (fp_unit st) = image_frame unit"
    by (simp add: first_pass_start_def)
  with assms Inr show ?thesis
    by (auto simp: first_pass_def split: option.splits dest: images_scan_table)
qed

subsection \<open>The shape of a parsed line\<close>














subsection \<open>The counters of the first pass\<close>








subsection \<open>The counters of the second pass\<close>


lemma counters_primitives [simp]:
  "ic (or_instruction unit v) = ic unit" "dc (or_instruction unit v) = dc unit"
  "ic (or_data unit v) = ic unit" "dc (or_data unit v) = dc unit"
  "ic (next_ic unit) = ic unit + 1" "dc (next_ic unit) = dc unit"
  "ic (next_dc unit) = ic unit" "dc (next_dc unit) = dc unit + 1"
  by (simp_all add: or_instruction_def or_data_def next_ic_def next_dc_def)

lemma counters_first_word [simp]:
  "ic (first_word line_ast unit) = ic unit + 1" "dc (first_word line_ast unit) = dc unit"
  by (simp_all add: first_word_def Let_def)

lemma counters_label_word [simp]:
  "ic (label_word sym_find unit) = ic unit + 1" "dc (label_word sym_find unit) = dc unit"
  by (simp_all add: label_word_def Let_def)

lemma encode_operand_dc [simp]:
  "dc (sp_unit (encode_operand i operand st)) = dc (sp_unit st)"
  by (simp add: encode_operand_def logic_error_def Let_def split: option.splits)

lemma encode_operand_grows:
  "ic (sp_unit st) \<le> ic (sp_unit (encode_operand i operand st))"
  by (simp add: encode_operand_def logic_error_def Let_def split: option.splits)


lemma encode_instruction_dc [simp]:
  "dc (sp_unit (encode_instruction line_ast st)) = dc (sp_unit st)"
  by (simp add: encode_instruction_def Let_def)

lemma encode_instruction_grows:
  "ic (sp_unit st) \<le> ic (sp_unit (encode_instruction line_ast st))"
proof -
  have "ic (sp_unit st) \<le> ic (sp_unit (encode_operand 1 b (encode_operand 0 a
          (st\<lparr>sp_unit := first_word line_ast (sp_unit st)\<rparr>))))" for a b
    using encode_operand_grows [of "encode_operand 0 a
          (st\<lparr>sp_unit := first_word line_ast (sp_unit st)\<rparr>)" 1 b]
      encode_operand_grows [of "st\<lparr>sp_unit := first_word line_ast (sp_unit st)\<rparr>" 0 a]
    by simp
  then show ?thesis
    by (simp add: encode_instruction_def Let_def)
qed



lemma encode_data_item_ic [simp]:
  "ic (sp_unit (encode_data_item st item)) = ic (sp_unit st)"
  by (simp add: encode_data_item_def logic_error_def Let_def split: option.splits)

lemma encode_data_item_grows:
  "dc (sp_unit st) \<le> dc (sp_unit (encode_data_item st item))"
  by (simp add: encode_data_item_def logic_error_def Let_def split: option.splits)


lemma data_items_ic [simp]:
  "ic (sp_unit (foldl encode_data_item st items)) = ic (sp_unit st)"
  by (induction items arbitrary: st) simp_all

lemma data_items_grow:
  "dc (sp_unit st) \<le> dc (sp_unit (foldl encode_data_item st items))"
proof (induction items arbitrary: st)
  case Nil
  then show ?case by simp
next
  case (Cons item rest)
  from Cons [of "encode_data_item st item"] encode_data_item_grows [of st item] show ?case
    by simp
qed


lemma string_chars_counters [simp]:
  "ic (foldl (\<lambda>unit x. next_dc (or_data unit (word_of_int x))) unit xs) = ic unit"
  "dc (foldl (\<lambda>unit x. next_dc (or_data unit (word_of_int x))) unit xs)
   = dc unit + int (length xs)"
  by (induction xs arbitrary: unit) simp_all

lemma encode_directive_ic [simp]:
  "ic (sp_unit (encode_directive line_ast st)) = ic (sp_unit st)"
  by (simp add: encode_directive_def Let_def)

lemma encode_directive_grows:
  "dc (sp_unit st) \<le> dc (sp_unit (encode_directive line_ast st))"
  by (simp add: encode_directive_def Let_def data_items_grow)


lemma second_pass_line_grows:
  "second_pass_line line st = Inr st1
   \<Longrightarrow> ic (sp_unit st) \<le> ic (sp_unit st1) \<and> dc (sp_unit st) \<le> dc (sp_unit st1)"
  by (auto simp: second_pass_line_def Let_def encode_instruction_grows encode_directive_grows
        split: if_splits)

lemma second_pass_loop_grows:
  "second_pass_loop am_lines st = Inr st1
   \<Longrightarrow> ic (sp_unit st) \<le> ic (sp_unit st1) \<and> dc (sp_unit st) \<le> dc (sp_unit st1)"
proof (induction am_lines arbitrary: st)
  case Nil
  then show ?case by simp
next
  case (Cons line rest)
  from Cons.prems obtain mid where m: "second_pass_line line st = Inr mid"
    and r: "second_pass_loop rest mid = Inr st1"
    by (cases "second_pass_line line st") auto
  from Cons.IH [OF r] second_pass_line_grows [OF m] show ?case
    by simp
qed



lemma second_pass_loop_fatal:
  "second_pass_loop am_lines st = Inl fatal \<Longrightarrow> fatal = MEMORY_ALLOCATION_ERROR"
proof (induction am_lines arbitrary: st)
  case Nil
  then show ?case by simp
next
  case (Cons line rest)
  then show ?case
    by (cases "second_pass_line line st")
      (auto simp: second_pass_line_def Let_def split: if_splits)
qed

lemma second_pass_returns:
  assumes "second_pass unit am_lines = (NO_ERRORS, unit2)"
  shows "\<exists>st. second_pass_loop am_lines (second_pass_start unit) = Inr st
              \<and> sp_err_flag st = NO_ERRORS \<and> sp_unit st = unit2"
proof (cases "second_pass_loop am_lines (second_pass_start unit)")
  case (Inl fatal)
  with second_pass_loop_fatal [OF Inl] assms show ?thesis
    by (simp add: second_pass_def)
next
  case (Inr st)
  with assms show ?thesis
    by (auto simp: second_pass_def split: if_splits)
qed

subsection \<open>The header of the object file\<close>

text \<open>
  The second example of the specification: a constant, a string of two characters with
  a label, and the label as an entry. All the files that \<open>main\<close> leaves for it.
\<close>

definition constant_and_data_file :: string where
  "constant_and_data_file =
     ''.define SZ = 5'' @ [CHR 0x0A] @ ''STR: .string '' @ [CHR 0x22] @ ''ab'' @ [CHR 0x22, CHR 0x0A]
     @ ''.entry STR'' @ [CHR 0x0A]"

lemma constant_and_data_files:
  "assemble constant_and_data_file
   = Some \<lparr>am_text = Some constant_and_data_file,
           ob_lines = Some [''  0 3'' @ [CHR 0x0A], ''0100 ***#%*#'' @ [CHR 0x0A],
                            ''0101 ***#%*%'' @ [CHR 0x0A], ''0102 *******'' @ [CHR 0x0A]],
           ent_lines = Some [''STR'' @ [CHR 0x09] @ ''0100'' @ [CHR 0x0A]],
           ext_lines = None\<rparr>"
  by code_simp

text \<open>
  Claim C2 says that the header of the \<open>.ob\<close> file prints \<open>ic\<close> as 100 plus the number of
  instruction words, so that this file, with no instruction and three data words, gets
  the header \<open>100 3\<close> after the two spaces. The program prints the number of instruction
  words itself: the header of this file is two spaces and \<open>0 3\<close>.
\<close>

theorem C2_header_without_instructions:
  "map_option ob_lines (assemble constant_and_data_file)
   = Some (Some [''  0 3'' @ [CHR 0x0A], ''0100 ***#%*#'' @ [CHR 0x0A],
                 ''0101 ***#%*%'' @ [CHR 0x0A], ''0102 *******'' @ [CHR 0x0A]])"
  by (simp add: constant_and_data_files)

text \<open>
  Claim C2, as amended. For every file that reaches emission, the first line of the
  \<open>.ob\<close> file consists of two spaces, the value of \<open>ic\<close>, one space and the value of \<open>dc\<close>,
  where the printed \<open>ic\<close> is the number of instruction words that were emitted (without
  the base address 100) and the printed \<open>dc\<close> the number of data words: the second pass
  starts from \<open>ic = 0\<close> and \<open>dc = 0\<close>, and the header is followed by as many instruction
  lines as the printed \<open>ic\<close> and as many data lines as the printed \<open>dc\<close>. The base 100 is
  added only to the addresses of these lines.
\<close>

theorem C2_object_file_header:
  assumes "assemble as_file = Some files" and "ob_lines files = Some ob"
  shows "\<exists>am table unit1 unit2 instruction_lines data_lines.
           pre_assembly as_file zero_macro_table = Some (am, table)
           \<and> first_pass zero_unit (file_lines MAX_LINE_LEN am) table = Some (NO_ERRORS, unit1)
           \<and> ic unit1 = 0 \<and> dc unit1 = 0
           \<and> second_pass unit1 (file_lines MAX_LINE_LEN am) = (NO_ERRORS, unit2)
           \<and> ob = (''  '' @ printf_d (ic unit2) @ '' '' @ printf_d (dc unit2) @ [CHR 0x0A])
                  # instruction_lines @ data_lines
           \<and> instruction_lines
             = map (\<lambda>i. object_line (i + 100) (instruction_array unit2 i)) [0..ic unit2 - 1]
           \<and> int (length instruction_lines) = ic unit2
           \<and> data_lines
             = map (\<lambda>i. object_line (i + (ic unit2 + 100)) (data_array unit2 i)) [0..dc unit2 - 1]
           \<and> int (length data_lines) = dc unit2"
proof -
  from assms obtain am table where pre: "pre_assembly as_file zero_macro_table = Some (am, table)"
    by (cases "pre_assembly as_file zero_macro_table") (auto simp: assemble_def)
  with assms obtain flag1 unit1 where
    fp: "first_pass zero_unit (file_lines MAX_LINE_LEN am) table = Some (flag1, unit1)"
    by (cases "first_pass zero_unit (file_lines MAX_LINE_LEN am) table")
      (auto simp: assemble_def)
  obtain flag2 unit2 where sp: "second_pass unit1 (file_lines MAX_LINE_LEN am) = (flag2, unit2)"
    by (cases "second_pass unit1 (file_lines MAX_LINE_LEN am)") auto
  from assms pre fp sp have f1: "flag1 = NO_ERRORS"
    by (auto simp: assemble_def Let_def split: if_splits)
  from assms pre fp sp f1 have f2: "flag2 = NO_ERRORS"
    by (auto simp: assemble_def Let_def split: if_splits)
  from assms pre fp sp f1 f2 have ob: "ob = fst (create_object_file unit2)"
    by (auto simp: assemble_def Let_def split: prod.splits)
  from images_first_pass [OF fp] have z: "ic unit1 = 0" "dc unit1 = 0"
    by (simp_all add: image_frame_def zero_unit_def)
  from sp f2 obtain st where
    "second_pass_loop (file_lines MAX_LINE_LEN am) (second_pass_start unit1) = Inr st"
    "sp_unit st = unit2"
    using second_pass_returns by blast
  with second_pass_loop_grows [OF this(1)] z have g: "0 \<le> ic unit2" "0 \<le> dc unit2"
    by (simp_all add: second_pass_start_def)
  define instruction_lines where "instruction_lines
    = map (\<lambda>i. object_line (i + 100) (instruction_array unit2 i)) [0..ic unit2 - 1]"
  define data_lines where "data_lines
    = map (\<lambda>i. object_line (i + (ic unit2 + 100)) (data_array unit2 i)) [0..dc unit2 - 1]"
  from g have l: "int (length instruction_lines) = ic unit2" "int (length data_lines) = dc unit2"
    by (simp_all add: instruction_lines_def data_lines_def)
  from ob have "ob = (''  '' @ printf_d (ic unit2) @ '' '' @ printf_d (dc unit2) @ [CHR 0x0A])
                  # instruction_lines @ data_lines"
    by (simp add: create_object_file_def object_header_def Let_def instruction_lines_def
          data_lines_def)
  with pre fp sp f1 f2 z l instruction_lines_def data_lines_def show ?thesis by blast
qed

theorem C2_object_file_header_witness:
  "\<exists>am table unit1 unit2 instruction_lines data_lines.
     pre_assembly constant_and_data_file zero_macro_table = Some (am, table)
     \<and> first_pass zero_unit (file_lines MAX_LINE_LEN am) table = Some (NO_ERRORS, unit1)
     \<and> ic unit1 = 0 \<and> dc unit1 = 0
     \<and> second_pass unit1 (file_lines MAX_LINE_LEN am) = (NO_ERRORS, unit2)
     \<and> [''  0 3'' @ [CHR 0x0A], ''0100 ***#%*#'' @ [CHR 0x0A],
        ''0101 ***#%*%'' @ [CHR 0x0A], ''0102 *******'' @ [CHR 0x0A]]
       = (''  '' @ printf_d (ic unit2) @ '' '' @ printf_d (dc unit2) @ [CHR 0x0A])
         # instruction_lines @ data_lines
     \<and> instruction_lines
       = map (\<lambda>i. object_line (i + 100) (instruction_array unit2 i)) [0..ic unit2 - 1]
     \<and> int (length instruction_lines) = ic unit2
     \<and> data_lines
       = map (\<lambda>i. object_line (i + (ic unit2 + 100)) (data_array unit2 i)) [0..dc unit2 - 1]
     \<and> int (length data_lines) = dc unit2"
  by (rule C2_object_file_header [OF constant_and_data_files]) simp

subsection \<open>The word counts of the two passes\<close>










end
